theory Spec2Isabelle
  imports Complex_Main "HOL-Library.Word"
begin

section \<open>The graphics and windowing interface used by Application.cpp\<close>

text \<open>
  \<^verbatim>\<open>src/OpenGL/src/Application.cpp\<close> is a straight sequence of calls into OpenGL, GLEW,
  GLFW and the C++ standard output stream. None of these libraries belongs to the
  repository, so the embedding records every such call, in order, in a trace, and takes
  every value a library hands back from an environment. The environment answers as a
  function of the trace so far (the call being answered is its last element), so that
  any behaviour of a driver, also a stateful one, is some environment.
\<close>

subsection \<open>C types\<close>

type_synonym GLuint = "32 word"     \<comment> \<open>\<^verbatim>\<open>unsigned int\<close>\<close>
type_synonym GLenum = "32 word"
type_synonym GLint = "32 word"      \<comment> \<open>\<^verbatim>\<open>int\<close>; read with \<^const>\<open>sint\<close>\<close>
type_synonym size_t = "64 word"     \<comment> \<open>\<^verbatim>\<open>size_t\<close> of a 64-bit build\<close>
type_synonym GLFWwindow_ptr = nat    \<comment> \<open>\<^verbatim>\<open>GLFWwindow*\<close>, an address\<close>

definition NULL :: nat where
  "NULL = 0"

definition sizeof_char :: size_t where
  "sizeof_char = 1"

definition sizeof_float :: nat where
  "sizeof_float = 4"

text \<open>
  The integer promotion of \<^verbatim>\<open>length * sizeof(char)\<close>: the \<^verbatim>\<open>int\<close> is converted to
  \<^verbatim>\<open>size_t\<close>, which keeps its value modulo \<open>2 ^ 64\<close>.
\<close>

definition size_t_of_int :: "GLint \<Rightarrow> size_t" where
  "size_t_of_int n = scast n"

text \<open>
  \<^verbatim>\<open>std::string::c_str()\<close> read by a consumer of NUL-terminated text (\<^verbatim>\<open>glShaderSource\<close>
  with a null length array): the characters before the first NUL.
\<close>

definition c_str :: "string \<Rightarrow> string" where
  "c_str s = takeWhile (\<lambda>c. c \<noteq> CHR 0x00) s"

subsection \<open>Constants of the library headers\<close>

text \<open>
  The values that \<^verbatim>\<open>GL/glew.h\<close> gives these names. No theorem below depends on the
  numbers, apart from evaluation at concrete runs.
\<close>

definition GL_FALSE :: GLint where "GL_FALSE = 0"
definition GL_TRIANGLES :: GLenum where "GL_TRIANGLES = 0x0004"
definition GL_FLOAT :: GLenum where "GL_FLOAT = 0x1406"
definition GL_VERSION :: GLenum where "GL_VERSION = 0x1F02"
definition GL_COLOR_BUFFER_BIT :: GLenum where "GL_COLOR_BUFFER_BIT = 0x4000"
definition GL_ARRAY_BUFFER :: GLenum where "GL_ARRAY_BUFFER = 0x8892"
definition GL_STATIC_DRAW :: GLenum where "GL_STATIC_DRAW = 0x88E4"
definition GL_FRAGMENT_SHADER :: GLenum where "GL_FRAGMENT_SHADER = 0x8B30"
definition GL_VERTEX_SHADER :: GLenum where "GL_VERTEX_SHADER = 0x8B31"
definition GL_COMPILE_STATUS :: GLenum where "GL_COMPILE_STATUS = 0x8B81"
definition GL_INFO_LOG_LENGTH :: GLenum where "GL_INFO_LOG_LENGTH = 0x8B84"
definition GLEW_OK :: GLenum where "GLEW_OK = 0"

subsection \<open>Calls and traces\<close>

text \<open>
  One constructor for each library function the source calls, with the arguments the
  source passes. \<open>Cout s\<close> is \<^verbatim>\<open>std::cout << s\<close> for NUL-terminated text \<open>s\<close>, \<open>Endl\<close> is
  \<^verbatim>\<open>std::cout << std::endl\<close>, \<open>Malloca n\<close> is \<^verbatim>\<open>_malloca(n)\<close>. A pointer argument is
  recorded as what it points to: the source text for \<^verbatim>\<open>glShaderSource\<close>, the array for
  \<^verbatim>\<open>glBufferData\<close>. Every literal of \<^verbatim>\<open>positions\<close> is a binary fraction that
  \<^verbatim>\<open>float\<close> holds exactly, so the array is recorded as the list of these numbers.
\<close>

datatype call =
    GlfwInit
  | GlfwCreateWindow int int string
  | GlfwTerminate
  | GlfwMakeContextCurrent GLFWwindow_ptr
  | GlewInit
  | GlGetString GLenum
  | GlGenBuffers GLint
  | GlBindBuffer GLenum GLuint
  | GlBufferData GLenum nat "real list" GLenum
  | GlEnableVertexAttribArray GLuint
  | GlVertexAttribPointer GLuint GLint GLenum GLint nat nat
  | GlUseProgram GLuint
  | GlfwWindowShouldClose GLFWwindow_ptr
  | GlClear GLenum
  | GlDrawArrays GLenum GLint GLint
  | GlfwSwapBuffers GLFWwindow_ptr
  | GlfwPollEvents
  | GlCreateProgram
  | GlAttachShader GLuint GLuint
  | GlLinkProgram GLuint
  | GlValidateProgram GLuint
  | GlCreateShader GLenum
  | GlShaderSource GLuint GLint string
  | GlCompileShader GLuint
  | GlGetShaderiv GLuint GLenum
  | Malloca size_t
  | GlGetShaderInfoLog GLuint GLint
  | GlDeleteShader GLuint
  | Cout string
  | Endl

type_synonym trace = "call list"

text \<open>
  What the libraries hand back. Each field maps the trace that ends with the call to the
  value the source reads afterwards: a return value, or what is found behind an output
  pointer once the call is over (\<^verbatim>\<open>result\<close> and \<^verbatim>\<open>length\<close> for \<^verbatim>\<open>glGetShaderiv\<close>, the
  written length and the NUL-terminated text in \<^verbatim>\<open>message\<close> for \<^verbatim>\<open>glGetShaderInfoLog\<close>,
  \<^verbatim>\<open>bufferID\<close> for \<^verbatim>\<open>glGenBuffers\<close>).
\<close>

record env =
  ret_glfwInit :: "trace \<Rightarrow> int"
  ret_glfwCreateWindow :: "trace \<Rightarrow> GLFWwindow_ptr"
  ret_glewInit :: "trace \<Rightarrow> GLenum"
  ret_glGetString :: "trace \<Rightarrow> string"
  ret_glGenBuffers :: "trace \<Rightarrow> GLuint"
  ret_glfwWindowShouldClose :: "trace \<Rightarrow> int"
  ret_glCreateProgram :: "trace \<Rightarrow> GLuint"
  ret_glCreateShader :: "trace \<Rightarrow> GLuint"
  ret_glGetShaderiv :: "trace \<Rightarrow> GLint"
  ret_glGetShaderInfoLog :: "trace \<Rightarrow> GLint \<times> string"

subsection \<open>The library functions as trace transformers\<close>

definition glfwInit :: "env \<Rightarrow> trace \<Rightarrow> int \<times> trace" where
  "glfwInit e tr = (let tr' = tr @ [GlfwInit] in (ret_glfwInit e tr', tr'))"

definition glfwCreateWindow :: "env \<Rightarrow> int \<Rightarrow> int \<Rightarrow> string \<Rightarrow> trace \<Rightarrow> GLFWwindow_ptr \<times> trace" where
  "glfwCreateWindow e w h title tr =
     (let tr' = tr @ [GlfwCreateWindow w h title] in (ret_glfwCreateWindow e tr', tr'))"

definition glfwTerminate :: "trace \<Rightarrow> trace" where
  "glfwTerminate tr = tr @ [GlfwTerminate]"

definition glfwMakeContextCurrent :: "GLFWwindow_ptr \<Rightarrow> trace \<Rightarrow> trace" where
  "glfwMakeContextCurrent window tr = tr @ [GlfwMakeContextCurrent window]"

definition glewInit :: "env \<Rightarrow> trace \<Rightarrow> GLenum \<times> trace" where
  "glewInit e tr = (let tr' = tr @ [GlewInit] in (ret_glewInit e tr', tr'))"

definition glGetString :: "env \<Rightarrow> GLenum \<Rightarrow> trace \<Rightarrow> string \<times> trace" where
  "glGetString e name tr = (let tr' = tr @ [GlGetString name] in (ret_glGetString e tr', tr'))"

definition glGenBuffers :: "env \<Rightarrow> GLint \<Rightarrow> trace \<Rightarrow> GLuint \<times> trace" where
  "glGenBuffers e n tr = (let tr' = tr @ [GlGenBuffers n] in (ret_glGenBuffers e tr', tr'))"

definition glBindBuffer :: "GLenum \<Rightarrow> GLuint \<Rightarrow> trace \<Rightarrow> trace" where
  "glBindBuffer target buffer tr = tr @ [GlBindBuffer target buffer]"

definition glBufferData :: "GLenum \<Rightarrow> nat \<Rightarrow> real list \<Rightarrow> GLenum \<Rightarrow> trace \<Rightarrow> trace" where
  "glBufferData target size' data usage tr = tr @ [GlBufferData target size' data usage]"

definition glEnableVertexAttribArray :: "GLuint \<Rightarrow> trace \<Rightarrow> trace" where
  "glEnableVertexAttribArray index tr = tr @ [GlEnableVertexAttribArray index]"

definition glVertexAttribPointer ::
  "GLuint \<Rightarrow> GLint \<Rightarrow> GLenum \<Rightarrow> GLint \<Rightarrow> nat \<Rightarrow> nat \<Rightarrow> trace \<Rightarrow> trace" where
  "glVertexAttribPointer index size' type' normalized stride pointer tr =
     tr @ [GlVertexAttribPointer index size' type' normalized stride pointer]"

definition glUseProgram :: "GLuint \<Rightarrow> trace \<Rightarrow> trace" where
  "glUseProgram program tr = tr @ [GlUseProgram program]"

definition glfwWindowShouldClose :: "env \<Rightarrow> GLFWwindow_ptr \<Rightarrow> trace \<Rightarrow> int \<times> trace" where
  "glfwWindowShouldClose e window tr =
     (let tr' = tr @ [GlfwWindowShouldClose window] in (ret_glfwWindowShouldClose e tr', tr'))"

definition glClear :: "GLenum \<Rightarrow> trace \<Rightarrow> trace" where
  "glClear mask' tr = tr @ [GlClear mask']"

definition glDrawArrays :: "GLenum \<Rightarrow> GLint \<Rightarrow> GLint \<Rightarrow> trace \<Rightarrow> trace" where
  "glDrawArrays mode first count tr = tr @ [GlDrawArrays mode first count]"

definition glfwSwapBuffers :: "GLFWwindow_ptr \<Rightarrow> trace \<Rightarrow> trace" where
  "glfwSwapBuffers window tr = tr @ [GlfwSwapBuffers window]"

definition glfwPollEvents :: "trace \<Rightarrow> trace" where
  "glfwPollEvents tr = tr @ [GlfwPollEvents]"

definition glCreateProgram :: "env \<Rightarrow> trace \<Rightarrow> GLuint \<times> trace" where
  "glCreateProgram e tr = (let tr' = tr @ [GlCreateProgram] in (ret_glCreateProgram e tr', tr'))"

definition glAttachShader :: "GLuint \<Rightarrow> GLuint \<Rightarrow> trace \<Rightarrow> trace" where
  "glAttachShader program shader tr = tr @ [GlAttachShader program shader]"

definition glLinkProgram :: "GLuint \<Rightarrow> trace \<Rightarrow> trace" where
  "glLinkProgram program tr = tr @ [GlLinkProgram program]"

definition glValidateProgram :: "GLuint \<Rightarrow> trace \<Rightarrow> trace" where
  "glValidateProgram program tr = tr @ [GlValidateProgram program]"

definition glCreateShader :: "env \<Rightarrow> GLenum \<Rightarrow> trace \<Rightarrow> GLuint \<times> trace" where
  "glCreateShader e type' tr =
     (let tr' = tr @ [GlCreateShader type'] in (ret_glCreateShader e tr', tr'))"

definition glShaderSource :: "GLuint \<Rightarrow> GLint \<Rightarrow> string \<Rightarrow> trace \<Rightarrow> trace" where
  "glShaderSource shader count src tr = tr @ [GlShaderSource shader count src]"

definition glCompileShader :: "GLuint \<Rightarrow> trace \<Rightarrow> trace" where
  "glCompileShader shader tr = tr @ [GlCompileShader shader]"

definition glGetShaderiv :: "env \<Rightarrow> GLuint \<Rightarrow> GLenum \<Rightarrow> trace \<Rightarrow> GLint \<times> trace" where
  "glGetShaderiv e shader pname tr =
     (let tr' = tr @ [GlGetShaderiv shader pname] in (ret_glGetShaderiv e tr', tr'))"

definition malloca :: "size_t \<Rightarrow> trace \<Rightarrow> trace" where
  "malloca n tr = tr @ [Malloca n]"

definition glGetShaderInfoLog :: "env \<Rightarrow> GLuint \<Rightarrow> GLint \<Rightarrow> trace \<Rightarrow> (GLint \<times> string) \<times> trace" where
  "glGetShaderInfoLog e shader bufSize tr =
     (let tr' = tr @ [GlGetShaderInfoLog shader bufSize] in (ret_glGetShaderInfoLog e tr', tr'))"

definition glDeleteShader :: "GLuint \<Rightarrow> trace \<Rightarrow> trace" where
  "glDeleteShader shader tr = tr @ [GlDeleteShader shader]"

definition cout :: "string \<Rightarrow> trace \<Rightarrow> trace" where
  "cout s tr = tr @ [Cout s]"

definition endl :: "trace \<Rightarrow> trace" where
  "endl tr = tr @ [Endl]"

section \<open>The program\<close>

subsection \<open>CompileShader (lines 6 to 35)\<close>

definition CompileShader :: "env \<Rightarrow> GLenum \<Rightarrow> string \<Rightarrow> trace \<Rightarrow> GLuint \<times> trace" where
  "CompileShader e type' source tr0 =
     (let (id', tr1) = glCreateShader e type' tr0;
          src = c_str source;
          sourceCodeCount = 1;
          tr2 = glShaderSource id' sourceCodeCount src tr1;
          tr3 = glCompileShader id' tr2;
          (result, tr4) = glGetShaderiv e id' GL_COMPILE_STATUS tr3
      in if result = GL_FALSE then
           (let (length', tr5) = glGetShaderiv e id' GL_INFO_LOG_LENGTH tr4;
                tr6 = malloca (size_t_of_int length' * sizeof_char) tr5;
                ((length'', message), tr7) = glGetShaderInfoLog e id' length' tr6;
                tr8 = endl (cout '' Shader!''
                        (cout (if type' = GL_VERTEX_SHADER then ''Vertex'' else ''Fragment'')
                           (cout ''Failed to compile '' tr7)));
                tr9 = endl (cout message tr8);
                tr10 = glDeleteShader id' tr9
            in (0, tr10))
         else (id', tr4))"

subsection \<open>CreateShader (lines 41 to 76)\<close>

definition CreateShader :: "env \<Rightarrow> string \<Rightarrow> string \<Rightarrow> trace \<Rightarrow> GLuint \<times> trace" where
  "CreateShader e vertexShader fragmentShader tr0 =
     (let (program, tr1) = glCreateProgram e tr0;
          (vs, tr2) = CompileShader e GL_VERTEX_SHADER vertexShader tr1;
          (fs, tr3) = CompileShader e GL_FRAGMENT_SHADER fragmentShader tr2;
          tr4 = glAttachShader program vs tr3;
          tr5 = glAttachShader program fs tr4;
          tr6 = glLinkProgram program tr5;
          tr7 = glValidateProgram program tr6;
          tr8 = glDeleteShader vs tr7;
          tr9 = glDeleteShader fs tr8
      in (program, tr9))"

subsection \<open>main (lines 78 to 201)\<close>

text \<open>The two string literals of lines 146 to 160.\<close>

definition vertexShader :: string where
  "vertexShader =
     ''#version 330 core\<newline>'' @
     ''\<newline>'' @
     ''layout(location = 0) in vec4 position;\<newline>'' @
     ''void main(){\<newline>'' @
     ''   gl_Position  = position;\<newline>'' @
     ''}\<newline>''"

definition fragmentShader :: string where
  "fragmentShader =
     ''#version 330 core\<newline>'' @
     ''\<newline>'' @
     ''layout(location = 0) out vec4 color;\<newline>'' @
     ''void main(){\<newline>'' @
     ''   color = vec4(1.0,0.0,0.0,1.0);\<newline>'' @
     ''}\<newline>''"

text \<open>
  The \<^verbatim>\<open>while\<close> loop of lines 167 to 195. It runs for as long as the window system
  answers 0 to \<^verbatim>\<open>glfwWindowShouldClose\<close>, so it need not return: the result is \<open>None\<close>
  when it does not, and the trace at the exit of the loop when it does.
\<close>

partial_function (option) frame_loop :: "env \<Rightarrow> GLFWwindow_ptr \<Rightarrow> trace \<Rightarrow> trace option" where
  "frame_loop e window tr0 =
     (let (close, tr1) = glfwWindowShouldClose e window tr0
      in if close = 0 then
           (let tr2 = glClear GL_COLOR_BUFFER_BIT tr1;
                tr3 = glDrawArrays GL_TRIANGLES 0 3 tr2;
                tr4 = glfwSwapBuffers window tr3;
                tr5 = glfwPollEvents tr4
            in frame_loop e window tr5)
         else Some tr1)"

text \<open>
  Lines 94 to 164 of \<^verbatim>\<open>main\<close>, from \<^verbatim>\<open>glfwMakeContextCurrent\<close> to \<^verbatim>\<open>glUseProgram\<close>: the
  context, the vertex buffer, the vertex layout and the shader program. There is no
  branch in these lines but the message after \<^verbatim>\<open>glewInit\<close>. The result is the handle
  in \<^verbatim>\<open>shader\<close> and the trace.
\<close>

definition main_setup :: "env \<Rightarrow> GLFWwindow_ptr \<Rightarrow> trace \<Rightarrow> GLuint \<times> trace" where
  "main_setup e window tr2 =
     (let tr3 = glfwMakeContextCurrent window tr2;
          (glew, tr4) = glewInit e tr3;
          tr5 = (if glew \<noteq> GLEW_OK then endl (cout ''Error!'' tr4) else tr4);
          (version, tr6) = glGetString e GL_VERSION tr5;
          tr7 = endl (cout version tr6);
          (bufferID, tr8) = glGenBuffers e 1 tr7;
          tr9 = glBindBuffer GL_ARRAY_BUFFER bufferID tr8;
          positions = [- 0.5, - 0.5, 0.0, 0.5, 0.5, - 0.5];
          tr10 = glBufferData GL_ARRAY_BUFFER (6 * sizeof_float) positions GL_STATIC_DRAW tr9;
          tr11 = glEnableVertexAttribArray 0 tr10;
          tr12 = glVertexAttribPointer 0 2 GL_FLOAT GL_FALSE (sizeof_float * 2) 0 tr11;
          (shader, tr13) = CreateShader e vertexShader fragmentShader tr12;
          tr14 = glUseProgram shader tr13
      in (shader, tr14))"

text \<open>
  \<^verbatim>\<open>main\<close> starts from the empty trace and returns its exit code with the trace of the
  whole run, or \<open>None\<close> when the frame loop never ends.
\<close>

definition main :: "env \<Rightarrow> (int \<times> trace) option" where
  "main e =
     (let (initialized, tr1) = glfwInit e []
      in if initialized = 0 then Some (- 1, tr1)
         else
          (let (window, tr2) = glfwCreateWindow e 640 480 ''Hello World'' tr1
           in if window = NULL then
                (let tr3 = glfwTerminate tr2 in Some (- 1, tr3))
              else
               (let (shader, tr14) = main_setup e window tr2
                in case frame_loop e window tr14 of
                     None \<Rightarrow> None
                   | Some tr15 \<Rightarrow>
                      (let tr16 = glDeleteShader shader tr15;
                           tr17 = glfwTerminate tr16
                       in Some (0, tr17)))))"

section \<open>Reading traces\<close>

text \<open>
  The calls of one pass through the body of the frame loop, with the query of the loop
  condition that lets the pass begin, and the calls of \<open>n\<close> passes in a row.
\<close>

definition frame_calls :: "GLFWwindow_ptr \<Rightarrow> trace" where
  "frame_calls window =
     [GlfwWindowShouldClose window, GlClear GL_COLOR_BUFFER_BIT,
      GlDrawArrays GL_TRIANGLES 0 3, GlfwSwapBuffers window, GlfwPollEvents]"

fun frames :: "nat \<Rightarrow> GLFWwindow_ptr \<Rightarrow> trace" where
  "frames 0 window = []"
| "frames (Suc n) window = frame_calls window @ frames n window"

text \<open>
  The window-close flag as the loop started at trace \<open>tr\<close> reads it after \<open>n\<close> passes:
  the answer to the query number \<open>n\<close>, counted from 0.
\<close>

definition closes_at :: "env \<Rightarrow> GLFWwindow_ptr \<Rightarrow> trace \<Rightarrow> nat \<Rightarrow> bool" where
  "closes_at e window tr n =
     (ret_glfwWindowShouldClose e (tr @ frames n window @ [GlfwWindowShouldClose window]) \<noteq> 0)"

definition is_draw :: "call \<Rightarrow> bool" where
  "is_draw c = (case c of GlDrawArrays m f n \<Rightarrow> True | _ \<Rightarrow> False)"

definition is_buffer_data :: "call \<Rightarrow> bool" where
  "is_buffer_data c = (case c of GlBufferData t n d u \<Rightarrow> True | _ \<Rightarrow> False)"

definition is_delete :: "call \<Rightarrow> bool" where
  "is_delete c = (case c of GlDeleteShader s \<Rightarrow> True | _ \<Rightarrow> False)"

text \<open>The text a trace writes to standard output.\<close>

fun text_of :: "call \<Rightarrow> string" where
  "text_of (Cout s) = s"
| "text_of Endl = ''\<newline>''"
| "text_of _ = []"

definition stdout_of :: "trace \<Rightarrow> string" where
  "stdout_of tr = concat (map text_of tr)"



text \<open>The calls of lines 109 to 142, which create, fill and describe the vertex buffer.\<close>

definition vertex_buffer_calls :: "GLuint \<Rightarrow> trace" where
  "vertex_buffer_calls bufferID =
     [GlGenBuffers 1, GlBindBuffer GL_ARRAY_BUFFER bufferID,
      GlBufferData GL_ARRAY_BUFFER (6 * sizeof_float) [- 0.5, - 0.5, 0.0, 0.5, 0.5, - 0.5]
        GL_STATIC_DRAW,
      GlEnableVertexAttribArray 0,
      GlVertexAttribPointer 0 2 GL_FLOAT GL_FALSE (sizeof_float * 2) 0]"

section \<open>Concrete runs\<close>

text \<open>
  A driver under which everything succeeds: the window is \<open>7\<close>, the vertex stage gets
  handle \<open>1\<close>, the fragment stage \<open>2\<close>, the program \<open>3\<close>, and the window closes after
  the first frame.
\<close>

definition env_ok :: env where
  "env_ok =
     \<lparr>ret_glfwInit = (\<lambda>tr. 1),
      ret_glfwCreateWindow = (\<lambda>tr. 7),
      ret_glewInit = (\<lambda>tr. GLEW_OK),
      ret_glGetString = (\<lambda>tr. ''3.3.0''),
      ret_glGenBuffers = (\<lambda>tr. 1),
      ret_glfwWindowShouldClose = (\<lambda>tr. if GlfwPollEvents \<in> set tr then 1 else 0),
      ret_glCreateProgram = (\<lambda>tr. 3),
      ret_glCreateShader = (\<lambda>tr. if last tr = GlCreateShader GL_VERTEX_SHADER then 1 else 2),
      ret_glGetShaderiv = (\<lambda>tr. 1),
      ret_glGetShaderInfoLog = (\<lambda>tr. (0, []))\<rparr>"

text \<open>
  The same driver with a compiler that rejects every stage, with a log of 24 characters
  (length 25 with the final NUL).
\<close>

definition env_bad :: env where
  "env_bad = env_ok
     \<lparr>ret_glGetShaderiv :=
        (\<lambda>tr. case last tr of
                 GlGetShaderiv s pname \<Rightarrow> if pname = GL_COMPILE_STATUS then GL_FALSE else 25
               | _ \<Rightarrow> 0),
      ret_glGetShaderInfoLog := (\<lambda>tr. (24, ''ERROR: 0:4: syntax error''))\<rparr>"

text \<open>The same driver as \<open>env_ok\<close> where one of the three initialisations fails.\<close>

definition env_no_init :: env where
  "env_no_init = env_ok\<lparr>ret_glfwInit := (\<lambda>tr. 0)\<rparr>"

definition env_no_window :: env where
  "env_no_window = env_ok\<lparr>ret_glfwCreateWindow := (\<lambda>tr. NULL)\<rparr>"

definition env_no_glew :: env where
  "env_no_glew = env_ok\<lparr>ret_glewInit := (\<lambda>tr. 1)\<rparr>"

text \<open>The trace of \<^verbatim>\<open>main\<close> under \<open>env_ok\<close>, up to the loop and as a whole.\<close>

definition setup_ok :: trace where
  "setup_ok =
     [GlGetString GL_VERSION, Cout ''3.3.0'', Endl,
      GlGenBuffers 1, GlBindBuffer GL_ARRAY_BUFFER 1,
      GlBufferData GL_ARRAY_BUFFER 24 [- 0.5, - 0.5, 0.0, 0.5, 0.5, - 0.5] GL_STATIC_DRAW,
      GlEnableVertexAttribArray 0, GlVertexAttribPointer 0 2 GL_FLOAT GL_FALSE 8 0,
      GlCreateProgram,
      GlCreateShader GL_VERTEX_SHADER, GlShaderSource 1 1 vertexShader, GlCompileShader 1,
      GlGetShaderiv 1 GL_COMPILE_STATUS,
      GlCreateShader GL_FRAGMENT_SHADER, GlShaderSource 2 1 fragmentShader, GlCompileShader 2,
      GlGetShaderiv 2 GL_COMPILE_STATUS,
      GlAttachShader 3 1, GlAttachShader 3 2, GlLinkProgram 3, GlValidateProgram 3,
      GlDeleteShader 1, GlDeleteShader 2,
      GlUseProgram 3]"

definition shutdown_ok :: trace where
  "shutdown_ok =
     [GlfwWindowShouldClose 7, GlClear GL_COLOR_BUFFER_BIT, GlDrawArrays GL_TRIANGLES 0 3,
      GlfwSwapBuffers 7, GlfwPollEvents,
      GlfwWindowShouldClose 7,
      GlDeleteShader 3, GlfwTerminate]"

definition run_ok :: trace where
  "run_ok =
     [GlfwInit, GlfwCreateWindow 640 480 ''Hello World'', GlfwMakeContextCurrent 7, GlewInit] @
     setup_ok @ shutdown_ok"

definition run_no_glew :: trace where
  "run_no_glew =
     [GlfwInit, GlfwCreateWindow 640 480 ''Hello World'', GlfwMakeContextCurrent 7, GlewInit,
      Cout ''Error!'', Endl] @
     setup_ok @ shutdown_ok"




section \<open>Properties of the library calls and of the two helpers\<close>

lemmas api_defs = glfwInit_def glfwCreateWindow_def glfwTerminate_def glfwMakeContextCurrent_def
  glewInit_def glGetString_def glGenBuffers_def glBindBuffer_def glBufferData_def
  glEnableVertexAttribArray_def glVertexAttribPointer_def glUseProgram_def
  glfwWindowShouldClose_def glClear_def glDrawArrays_def glfwSwapBuffers_def glfwPollEvents_def
  glCreateProgram_def glAttachShader_def glLinkProgram_def glValidateProgram_def
  glCreateShader_def glShaderSource_def glCompileShader_def glGetShaderiv_def malloca_def
  glGetShaderInfoLog_def glDeleteShader_def cout_def endl_def

lemma size_t_of_length:
  assumes "0 \<le> sint n"
  shows "unat (size_t_of_int n * sizeof_char) = nat (sint n)"
proof -
  have "sint n < 2 ^ (LENGTH(32) - 1)" by (rule sint_lt)
  also have "(2::int) ^ (LENGTH(32) - 1) \<le> 2 ^ 64" by (rule power_increasing) simp_all
  finally have "sint n < 2 ^ 64" .
  with assms have keep: "take_bit 64 (sint n) = sint n" by (rule take_bit_int_eq_self)
  have "uint (word_of_int (sint n) :: 64 word) = take_bit LENGTH(64) (sint n)"
    by (rule uint_word_of_int_eq)
  with keep have "uint (word_of_int (sint n) :: 64 word) = sint n" by simp
  then have "unat (scast n :: 64 word) = nat (sint n)"
    by (simp only: scast_eq unat_eq_nat_uint)
  then show ?thesis by (simp only: size_t_of_int_def sizeof_char_def mult_1_right)
qed

lemma CompileShader_failure:
  assumes "glCreateShader e ty tr = (i, tr1)"
    and "glGetShaderiv e i GL_COMPILE_STATUS
           (glCompileShader i (glShaderSource i 1 (c_str source) tr1)) = (GL_FALSE, tr4)"
    and "glGetShaderiv e i GL_INFO_LOG_LENGTH tr4 = (len, tr5)"
    and "glGetShaderInfoLog e i len (malloca (size_t_of_int len * sizeof_char) tr5) =
           ((len', message), tr7)"
  shows "CompileShader e ty source tr =
     (0, tr @ [GlCreateShader ty, GlShaderSource i 1 (c_str source), GlCompileShader i,
               GlGetShaderiv i GL_COMPILE_STATUS, GlGetShaderiv i GL_INFO_LOG_LENGTH,
               Malloca (size_t_of_int len * sizeof_char), GlGetShaderInfoLog i len,
               Cout ''Failed to compile '',
               Cout (if ty = GL_VERTEX_SHADER then ''Vertex'' else ''Fragment''),
               Cout '' Shader!'', Endl, Cout message, Endl, GlDeleteShader i])"
  using assms unfolding CompileShader_def
  by (auto simp: api_defs Let_def split: prod.splits)

lemma CompileShader_success:
  assumes "glCreateShader e ty tr = (i, tr1)"
    and "glGetShaderiv e i GL_COMPILE_STATUS
           (glCompileShader i (glShaderSource i 1 (c_str source) tr1)) = (result, tr4)"
    and "result \<noteq> GL_FALSE"
  shows "CompileShader e ty source tr =
     (i, tr @ [GlCreateShader ty, GlShaderSource i 1 (c_str source), GlCompileShader i,
               GlGetShaderiv i GL_COMPILE_STATUS])"
  using assms unfolding CompileShader_def
  by (auto simp: api_defs Let_def split: prod.splits)

lemma CompileShader_extends:
  "\<exists>cs. snd (CompileShader e ty source tr) = tr @ cs \<and>
        filter is_draw cs = [] \<and> filter is_buffer_data cs = []"
  unfolding CompileShader_def
  by (simp add: api_defs Let_def is_draw_def is_buffer_data_def split: prod.splits)

lemma CreateShader_eq:
  assumes "glCreateProgram e tr = (program, tr1)"
    and "CompileShader e GL_VERTEX_SHADER v tr1 = (vs, tr2)"
    and "CompileShader e GL_FRAGMENT_SHADER f tr2 = (fs, tr3)"
  shows "CreateShader e v f tr =
     (program, tr3 @ [GlAttachShader program vs, GlAttachShader program fs,
                      GlLinkProgram program, GlValidateProgram program,
                      GlDeleteShader vs, GlDeleteShader fs])"
  using assms unfolding CreateShader_def
  by (simp add: glAttachShader_def glLinkProgram_def glValidateProgram_def glDeleteShader_def)

lemma CreateShader_extends:
  "\<exists>cs. snd (CreateShader e v f tr) = tr @ cs \<and>
        filter is_draw cs = [] \<and> filter is_buffer_data cs = []"
proof -
  obtain program tr1 where p: "glCreateProgram e tr = (program, tr1)"
    by (cases "glCreateProgram e tr")
  obtain vs tr2 where v: "CompileShader e GL_VERTEX_SHADER v tr1 = (vs, tr2)"
    by (cases "CompileShader e GL_VERTEX_SHADER v tr1")
  obtain fs tr3 where f: "CompileShader e GL_FRAGMENT_SHADER f tr2 = (fs, tr3)"
    by (cases "CompileShader e GL_FRAGMENT_SHADER f tr2")
  have t1: "tr1 = tr @ [GlCreateProgram]"
    using p by (auto simp: glCreateProgram_def Let_def)
  from CompileShader_extends [of e GL_VERTEX_SHADER v tr1] v
  obtain cv where cv: "tr2 = tr1 @ cv" "filter is_draw cv = []" "filter is_buffer_data cv = []"
    by auto
  from CompileShader_extends [of e GL_FRAGMENT_SHADER f tr2] f
  obtain cf where cf: "tr3 = tr2 @ cf" "filter is_draw cf = []" "filter is_buffer_data cf = []"
    by auto
  show ?thesis
    unfolding CreateShader_eq [OF p v f]
    using t1 cv cf by (simp add: is_draw_def is_buffer_data_def)
qed

section \<open>Properties of the frame loop\<close>

lemma frame_loop_unfold:
  "frame_loop e w tr =
    (if ret_glfwWindowShouldClose e (tr @ [GlfwWindowShouldClose w]) = 0
     then frame_loop e w (tr @ frame_calls w)
     else Some (tr @ [GlfwWindowShouldClose w]))"
  by (subst frame_loop.simps) (simp add: api_defs Let_def frame_calls_def)

lemma closes_at_0:
  "closes_at e w tr 0 = (ret_glfwWindowShouldClose e (tr @ [GlfwWindowShouldClose w]) \<noteq> 0)"
  by (simp add: closes_at_def)

lemma closes_at_Suc: "closes_at e w tr (Suc n) = closes_at e w (tr @ frame_calls w) n"
  by (simp add: closes_at_def)

lemma frame_loop_closes:
  "closes_at e w tr n \<Longrightarrow> (\<And>m. m < n \<Longrightarrow> \<not> closes_at e w tr m) \<Longrightarrow>
   frame_loop e w tr = Some (tr @ frames n w @ [GlfwWindowShouldClose w])"
proof (induction n arbitrary: tr)
  case 0
  then show ?case by (subst frame_loop_unfold) (simp add: closes_at_0)
next
  case (Suc n)
  have open0: "\<not> closes_at e w tr 0" using Suc.prems(2) by simp
  have later: "closes_at e w (tr @ frame_calls w) n"
    using Suc.prems(1) by (simp add: closes_at_Suc)
  have before: "\<And>m. m < n \<Longrightarrow> \<not> closes_at e w (tr @ frame_calls w) m"
    using Suc.prems(2) by (simp add: closes_at_Suc [symmetric])
  have "frame_loop e w tr = frame_loop e w (tr @ frame_calls w)"
    using open0 by (subst frame_loop_unfold) (simp add: closes_at_0)
  also have "\<dots> = Some ((tr @ frame_calls w) @ frames n w @ [GlfwWindowShouldClose w])"
    by (rule Suc.IH [OF later before])
  finally show ?case by simp
qed

lemma frame_loop_returns:
  "frame_loop e w tr = Some tr' \<Longrightarrow>
   \<exists>n. closes_at e w tr n \<and> (\<forall>m<n. \<not> closes_at e w tr m) \<and>
       tr' = tr @ frames n w @ [GlfwWindowShouldClose w]"
proof (induction rule: frame_loop.raw_induct [rotated 1, consumes 1])
  case (1 loop e w tr tr')
  show ?case
  proof (cases "ret_glfwWindowShouldClose e (tr @ [GlfwWindowShouldClose w]) = 0")
    case True
    with 1(2) have "loop e w (tr @ frame_calls w) = Some tr'"
      by (simp add: api_defs Let_def frame_calls_def)
    from 1(1) [OF this] obtain n where n: "closes_at e w (tr @ frame_calls w) n"
      "\<forall>m<n. \<not> closes_at e w (tr @ frame_calls w) m"
      "tr' = (tr @ frame_calls w) @ frames n w @ [GlfwWindowShouldClose w]" by blast
    have "\<forall>m<Suc n. \<not> closes_at e w tr m"
    proof (intro allI impI)
      fix m assume "m < Suc n"
      then show "\<not> closes_at e w tr m"
        using n(2) True by (cases m) (simp_all add: closes_at_0 closes_at_Suc)
    qed
    with n(1,3) show ?thesis
      by (intro exI [of _ "Suc n"]) (simp add: closes_at_Suc)
  next
    case False
    with 1(2) have "tr' = tr @ [GlfwWindowShouldClose w]"
      by (simp add: api_defs Let_def)
    with False show ?thesis
      by (intro exI [of _ 0]) (simp add: closes_at_0)
  qed
qed

lemma frame_loop_terminates_iff:
  "(frame_loop e w tr \<noteq> None) = (\<exists>n. closes_at e w tr n)"
proof
  assume "frame_loop e w tr \<noteq> None"
  then obtain tr' where "frame_loop e w tr = Some tr'" by blast
  from frame_loop_returns [OF this] show "\<exists>n. closes_at e w tr n" by blast
next
  assume "\<exists>n. closes_at e w tr n"
  then obtain k where k: "closes_at e w tr k" ..
  define n where "n = (LEAST i. closes_at e w tr i)"
  have "closes_at e w tr n" unfolding n_def using k by (rule LeastI)
  moreover have "\<And>m. m < n \<Longrightarrow> \<not> closes_at e w tr m"
    unfolding n_def by (rule not_less_Least)
  ultimately have "frame_loop e w tr = Some (tr @ frames n w @ [GlfwWindowShouldClose w])"
    by (rule frame_loop_closes)
  then show "frame_loop e w tr \<noteq> None" by simp
qed

lemma frames_no_buffer_data: "filter is_buffer_data (frames n w) = []"
  by (induction n) (simp_all add: frame_calls_def is_buffer_data_def)

lemma frames_draws: "filter is_draw (frames n w) = replicate n (GlDrawArrays GL_TRIANGLES 0 3)"
  by (induction n) (simp_all add: frame_calls_def is_draw_def)


section \<open>Properties of main\<close>

lemma main_setup_shape:
  assumes "main_setup e w tr2 = (shader, tr14)"
  shows "\<exists>version bufferID cs.
     CreateShader e vertexShader fragmentShader
       (tr2 @ [GlfwMakeContextCurrent w, GlewInit] @
        (if fst (glewInit e (glfwMakeContextCurrent w tr2)) \<noteq> GLEW_OK
         then [Cout ''Error!'', Endl] else []) @
        [GlGetString GL_VERSION, Cout version, Endl] @ vertex_buffer_calls bufferID) =
       (shader,
        tr2 @ [GlfwMakeContextCurrent w, GlewInit] @
        (if fst (glewInit e (glfwMakeContextCurrent w tr2)) \<noteq> GLEW_OK
         then [Cout ''Error!'', Endl] else []) @
        [GlGetString GL_VERSION, Cout version, Endl] @ vertex_buffer_calls bufferID @ cs) \<and>
     tr14 = tr2 @ [GlfwMakeContextCurrent w, GlewInit] @
            (if fst (glewInit e (glfwMakeContextCurrent w tr2)) \<noteq> GLEW_OK
             then [Cout ''Error!'', Endl] else []) @
            [GlGetString GL_VERSION, Cout version, Endl] @ vertex_buffer_calls bufferID @
            cs @ [GlUseProgram shader] \<and>
     filter is_draw cs = [] \<and> filter is_buffer_data cs = []"
proof -
  define tr5 where "tr5 = tr2 @ [GlfwMakeContextCurrent w, GlewInit] @
            (if fst (glewInit e (glfwMakeContextCurrent w tr2)) \<noteq> GLEW_OK
             then [Cout ''Error!'', Endl] else [])"
  define version where "version = ret_glGetString e (tr5 @ [GlGetString GL_VERSION])"
  define tr7 where "tr7 = tr5 @ [GlGetString GL_VERSION, Cout version, Endl]"
  define bufferID where "bufferID = ret_glGenBuffers e (tr7 @ [GlGenBuffers 1])"
  define tr12 where "tr12 = tr7 @ vertex_buffer_calls bufferID"
  from CreateShader_extends [of e vertexShader fragmentShader tr12]
  obtain cs where cs: "snd (CreateShader e vertexShader fragmentShader tr12) = tr12 @ cs"
    "filter is_draw cs = []" "filter is_buffer_data cs = []" by blast
  have "main_setup e w tr2 =
     (fst (CreateShader e vertexShader fragmentShader tr12),
      snd (CreateShader e vertexShader fragmentShader tr12) @
        [GlUseProgram (fst (CreateShader e vertexShader fragmentShader tr12))])"
    unfolding main_setup_def tr12_def bufferID_def tr7_def version_def tr5_def
    by (simp add: glfwMakeContextCurrent_def glewInit_def glGetString_def glGenBuffers_def
        glBindBuffer_def glBufferData_def glEnableVertexAttribArray_def
        glVertexAttribPointer_def glUseProgram_def cout_def endl_def Let_def split_def
        vertex_buffer_calls_def)
  with assms cs(1) have r: "fst (CreateShader e vertexShader fragmentShader tr12) = shader"
    "tr14 = tr12 @ cs @ [GlUseProgram shader]" by auto
  from r(1) cs(1) have c: "CreateShader e vertexShader fragmentShader tr12 = (shader, tr12 @ cs)"
    by (simp add: prod_eq_iff)
  have t: "tr12 = tr2 @ [GlfwMakeContextCurrent w, GlewInit] @
            (if fst (glewInit e (glfwMakeContextCurrent w tr2)) \<noteq> GLEW_OK
             then [Cout ''Error!'', Endl] else []) @
            [GlGetString GL_VERSION, Cout version, Endl] @ vertex_buffer_calls bufferID"
    unfolding tr12_def tr7_def tr5_def by simp
  from c r(2) cs(2,3) show ?thesis
    unfolding t by (intro exI [of _ version] exI [of _ bufferID] exI [of _ cs]) simp
qed

lemma main_init_failed:
  "fst (glfwInit e []) = 0 \<Longrightarrow> main e = Some (- 1, [GlfwInit])"
  unfolding main_def by (simp add: glfwInit_def Let_def)

lemma main_window_failed:
  "fst (glfwInit e []) \<noteq> 0 \<Longrightarrow>
   fst (glfwCreateWindow e 640 480 ''Hello World'' [GlfwInit]) = NULL \<Longrightarrow>
   main e = Some (- 1, [GlfwInit, GlfwCreateWindow 640 480 ''Hello World'', GlfwTerminate])"
  unfolding main_def
  by (simp add: glfwInit_def glfwCreateWindow_def glfwTerminate_def Let_def)

lemma main_window_created:
  assumes "fst (glfwInit e []) \<noteq> 0"
    and "fst (glfwCreateWindow e 640 480 ''Hello World'' [GlfwInit]) = w"
    and "w \<noteq> NULL"
    and "main_setup e w [GlfwInit, GlfwCreateWindow 640 480 ''Hello World''] = (shader, tr14)"
  shows "main e = (case frame_loop e w tr14 of
                     None \<Rightarrow> None
                   | Some tr15 \<Rightarrow> Some (0, tr15 @ [GlDeleteShader shader, GlfwTerminate]))"
  using assms unfolding main_def
  by (simp add: glfwInit_def glfwCreateWindow_def glfwTerminate_def glDeleteShader_def Let_def
      split: option.splits)

lemma main_cases:
  assumes "main e = Some (c, tr)"
    and "w = fst (glfwCreateWindow e 640 480 ''Hello World'' [GlfwInit])"
    and "tr2 = [GlfwInit, GlfwCreateWindow 640 480 ''Hello World'']"
  shows "(fst (glfwInit e []) = 0 \<and> c = - 1 \<and> tr = [GlfwInit]) \<or>
         (fst (glfwInit e []) \<noteq> 0 \<and> w = NULL \<and> c = - 1 \<and> tr = tr2 @ [GlfwTerminate]) \<or>
         (fst (glfwInit e []) \<noteq> 0 \<and> w \<noteq> NULL \<and> c = 0 \<and>
          (\<exists>n. closes_at e w (snd (main_setup e w tr2)) n \<and>
               (\<forall>m<n. \<not> closes_at e w (snd (main_setup e w tr2)) m) \<and>
               tr = snd (main_setup e w tr2) @ frames n w @
                    [GlfwWindowShouldClose w, GlDeleteShader (fst (main_setup e w tr2)),
                     GlfwTerminate]))"
proof (cases "fst (glfwInit e []) = 0")
  case True
  with assms(1) main_init_failed [OF True] show ?thesis by simp
next
  case init: False
  show ?thesis
  proof (cases "w = NULL")
    case True
    with assms main_window_failed [OF init] init show ?thesis by simp
  next
    case False
    obtain shader tr14 where s: "main_setup e w tr2 = (shader, tr14)"
      by (cases "main_setup e w tr2")
    have m: "main e = (case frame_loop e w tr14 of None \<Rightarrow> None
                | Some tr15 \<Rightarrow> Some (0, tr15 @ [GlDeleteShader shader, GlfwTerminate]))"
      using init assms(2) [symmetric] False s [unfolded assms(3)] by (rule main_window_created)
    with assms(1) obtain tr15 where l: "frame_loop e w tr14 = Some tr15"
      and r: "c = 0" "tr = tr15 @ [GlDeleteShader shader, GlfwTerminate]"
      by (auto split: option.splits)
    from frame_loop_returns [OF l] obtain n where n: "closes_at e w tr14 n"
      "\<forall>m<n. \<not> closes_at e w tr14 m" "tr15 = tr14 @ frames n w @ [GlfwWindowShouldClose w]"
      by blast
    with r s init False show ?thesis by auto
  qed
qed






section \<open>The concrete runs\<close>

lemma env_ok_simps:
  "ret_glfwInit env_ok tr = 1"
  "ret_glfwCreateWindow env_ok tr = 7"
  "ret_glewInit env_ok tr = GLEW_OK"
  "ret_glGetString env_ok tr = ''3.3.0''"
  "ret_glGenBuffers env_ok tr = 1"
  "ret_glfwWindowShouldClose env_ok tr = (if GlfwPollEvents \<in> set tr then 1 else 0)"
  "ret_glCreateProgram env_ok tr = 3"
  "ret_glCreateShader env_ok tr = (if last tr = GlCreateShader GL_VERTEX_SHADER then 1 else 2)"
  "ret_glGetShaderiv env_ok tr = 1"
  "ret_glGetShaderInfoLog env_ok tr = (0, [])"
  by (simp_all add: env_ok_def)

lemma env_bad_simps:
  "ret_glCreateProgram env_bad tr = 3"
  "ret_glCreateShader env_bad tr = (if last tr = GlCreateShader GL_VERTEX_SHADER then 1 else 2)"
  "ret_glGetShaderiv env_bad (tr @ [GlGetShaderiv s GL_COMPILE_STATUS]) = GL_FALSE"
  "ret_glGetShaderiv env_bad (tr @ [GlGetShaderiv s GL_INFO_LOG_LENGTH]) = 25"
  "ret_glGetShaderInfoLog env_bad tr = (24, ''ERROR: 0:4: syntax error'')"
  by (simp_all add: env_bad_def env_ok_def GL_COMPILE_STATUS_def GL_INFO_LOG_LENGTH_def)

lemma env_no_init_simps:
  "ret_glfwInit env_no_init tr = 0"
  by (simp add: env_no_init_def)

lemma env_no_window_simps:
  "ret_glfwInit env_no_window tr = 1"
  "ret_glfwCreateWindow env_no_window tr = NULL"
  by (simp_all add: env_no_window_def env_ok_def)

lemma env_no_glew_simps:
  "ret_glfwInit env_no_glew tr = 1"
  "ret_glfwCreateWindow env_no_glew tr = 7"
  "ret_glewInit env_no_glew tr = 1"
  "ret_glGetString env_no_glew tr = ''3.3.0''"
  "ret_glGenBuffers env_no_glew tr = 1"
  "ret_glfwWindowShouldClose env_no_glew tr = (if GlfwPollEvents \<in> set tr then 1 else 0)"
  "ret_glCreateProgram env_no_glew tr = 3"
  "ret_glCreateShader env_no_glew tr =
     (if last tr = GlCreateShader GL_VERTEX_SHADER then 1 else 2)"
  "ret_glGetShaderiv env_no_glew tr = 1"
  by (simp_all add: env_no_glew_def env_ok_def)

lemma stage_kinds_differ: "GL_FRAGMENT_SHADER \<noteq> GL_VERTEX_SHADER"
  by (simp add: GL_VERTEX_SHADER_def GL_FRAGMENT_SHADER_def)

lemma c_str_vertexShader: "c_str vertexShader = vertexShader"
  by (simp add: c_str_def vertexShader_def)

lemma c_str_fragmentShader: "c_str fragmentShader = fragmentShader"
  by (simp add: c_str_def fragmentShader_def)

lemma CreateShader_concrete:
  assumes "ret_glCreateProgram e = (\<lambda>tr. 3)"
    and "ret_glCreateShader e = (\<lambda>tr. if last tr = GlCreateShader GL_VERTEX_SHADER then 1 else 2)"
    and "ret_glGetShaderiv e = (\<lambda>tr. 1)"
  shows "CreateShader e vertexShader fragmentShader tr =
     (3, tr @ [GlCreateProgram,
      GlCreateShader GL_VERTEX_SHADER, GlShaderSource 1 1 vertexShader, GlCompileShader 1,
      GlGetShaderiv 1 GL_COMPILE_STATUS,
      GlCreateShader GL_FRAGMENT_SHADER, GlShaderSource 2 1 fragmentShader, GlCompileShader 2,
      GlGetShaderiv 2 GL_COMPILE_STATUS,
      GlAttachShader 3 1, GlAttachShader 3 2, GlLinkProgram 3, GlValidateProgram 3,
      GlDeleteShader 1, GlDeleteShader 2])"
  by (simp add: CreateShader_def CompileShader_def assms api_defs Let_def GL_FALSE_def
      c_str_vertexShader c_str_fragmentShader stage_kinds_differ)

lemma main_setup_env_ok:
  "main_setup env_ok 7 [GlfwInit, GlfwCreateWindow 640 480 ''Hello World''] =
     (3, [GlfwInit, GlfwCreateWindow 640 480 ''Hello World'', GlfwMakeContextCurrent 7,
          GlewInit] @ setup_ok)"
proof -
  have c: "\<And>tr. CreateShader env_ok vertexShader fragmentShader tr =
     (3, tr @ [GlCreateProgram,
      GlCreateShader GL_VERTEX_SHADER, GlShaderSource 1 1 vertexShader, GlCompileShader 1,
      GlGetShaderiv 1 GL_COMPILE_STATUS,
      GlCreateShader GL_FRAGMENT_SHADER, GlShaderSource 2 1 fragmentShader, GlCompileShader 2,
      GlGetShaderiv 2 GL_COMPILE_STATUS,
      GlAttachShader 3 1, GlAttachShader 3 2, GlLinkProgram 3, GlValidateProgram 3,
      GlDeleteShader 1, GlDeleteShader 2])"
    by (rule CreateShader_concrete) (simp_all add: env_ok_def)
  show ?thesis
    by (simp add: main_setup_def c setup_ok_def
        glfwMakeContextCurrent_def glewInit_def glGetString_def glGenBuffers_def
        glBindBuffer_def glBufferData_def glEnableVertexAttribArray_def
        glVertexAttribPointer_def glUseProgram_def cout_def endl_def Let_def sizeof_float_def
        env_ok_simps)
qed

lemma main_setup_env_no_glew:
  "main_setup env_no_glew 7 [GlfwInit, GlfwCreateWindow 640 480 ''Hello World''] =
     (3, [GlfwInit, GlfwCreateWindow 640 480 ''Hello World'', GlfwMakeContextCurrent 7,
          GlewInit, Cout ''Error!'', Endl] @ setup_ok)"
proof -
  have c: "\<And>tr. CreateShader env_no_glew vertexShader fragmentShader tr =
     (3, tr @ [GlCreateProgram,
      GlCreateShader GL_VERTEX_SHADER, GlShaderSource 1 1 vertexShader, GlCompileShader 1,
      GlGetShaderiv 1 GL_COMPILE_STATUS,
      GlCreateShader GL_FRAGMENT_SHADER, GlShaderSource 2 1 fragmentShader, GlCompileShader 2,
      GlGetShaderiv 2 GL_COMPILE_STATUS,
      GlAttachShader 3 1, GlAttachShader 3 2, GlLinkProgram 3, GlValidateProgram 3,
      GlDeleteShader 1, GlDeleteShader 2])"
    by (rule CreateShader_concrete) (simp_all add: env_no_glew_def env_ok_def)
  show ?thesis
    by (simp add: main_setup_def c setup_ok_def
        glfwMakeContextCurrent_def glewInit_def glGetString_def glGenBuffers_def
        glBindBuffer_def glBufferData_def glEnableVertexAttribArray_def
        glVertexAttribPointer_def glUseProgram_def cout_def endl_def Let_def sizeof_float_def
        env_no_glew_simps GLEW_OK_def)
qed

lemma frame_loop_one_frame:
  assumes "ret_glfwWindowShouldClose e = (\<lambda>tr. if GlfwPollEvents \<in> set tr then 1 else 0)"
    and "GlfwPollEvents \<notin> set tr"
  shows "frame_loop e w tr = Some (tr @ frame_calls w @ [GlfwWindowShouldClose w])"
  apply (subst frame_loop_unfold)
  apply (subst frame_loop_unfold)
  apply (simp add: assms frame_calls_def)
  done

lemma main_env_ok: "main env_ok = Some (0, run_ok)"
proof -
  have i: "fst (glfwInit env_ok []) \<noteq> 0" by (simp add: glfwInit_def env_ok_simps)
  have w: "fst (glfwCreateWindow env_ok 640 480 ''Hello World'' [GlfwInit]) = 7"
    by (simp add: glfwCreateWindow_def env_ok_simps)
  have n: "(7::nat) \<noteq> NULL" by (simp add: NULL_def)
  have l: "frame_loop env_ok 7
     ([GlfwInit, GlfwCreateWindow 640 480 ''Hello World'', GlfwMakeContextCurrent 7,
          GlewInit] @ setup_ok) =
     Some (([GlfwInit, GlfwCreateWindow 640 480 ''Hello World'', GlfwMakeContextCurrent 7,
          GlewInit] @ setup_ok) @ frame_calls 7 @ [GlfwWindowShouldClose 7])"
    by (rule frame_loop_one_frame) (simp_all add: env_ok_def setup_ok_def)
  show ?thesis
    unfolding main_window_created [OF i w n main_setup_env_ok] l
    by (simp add: run_ok_def shutdown_ok_def frame_calls_def)
qed

lemma main_env_no_glew: "main env_no_glew = Some (0, run_no_glew)"
proof -
  have i: "fst (glfwInit env_no_glew []) \<noteq> 0" by (simp add: glfwInit_def env_no_glew_simps)
  have w: "fst (glfwCreateWindow env_no_glew 640 480 ''Hello World'' [GlfwInit]) = 7"
    by (simp add: glfwCreateWindow_def env_no_glew_simps)
  have n: "(7::nat) \<noteq> NULL" by (simp add: NULL_def)
  have l: "frame_loop env_no_glew 7
     ([GlfwInit, GlfwCreateWindow 640 480 ''Hello World'', GlfwMakeContextCurrent 7,
          GlewInit, Cout ''Error!'', Endl] @ setup_ok) =
     Some (([GlfwInit, GlfwCreateWindow 640 480 ''Hello World'', GlfwMakeContextCurrent 7,
          GlewInit, Cout ''Error!'', Endl] @ setup_ok) @ frame_calls 7 @ [GlfwWindowShouldClose 7])"
    by (rule frame_loop_one_frame) (simp_all add: env_no_glew_def env_ok_def setup_ok_def)
  show ?thesis
    unfolding main_window_created [OF i w n main_setup_env_no_glew] l
    by (simp add: run_no_glew_def shutdown_ok_def frame_calls_def)
qed

lemma CompileShader_env_bad:
  "CompileShader env_bad ty source tr =
     (0, tr @ [GlCreateShader ty,
               GlShaderSource (if ty = GL_VERTEX_SHADER then 1 else 2) 1 (c_str source),
               GlCompileShader (if ty = GL_VERTEX_SHADER then 1 else 2),
               GlGetShaderiv (if ty = GL_VERTEX_SHADER then 1 else 2) GL_COMPILE_STATUS,
               GlGetShaderiv (if ty = GL_VERTEX_SHADER then 1 else 2) GL_INFO_LOG_LENGTH,
               Malloca 25,
               GlGetShaderInfoLog (if ty = GL_VERTEX_SHADER then 1 else 2) 25,
               Cout ''Failed to compile '',
               Cout (if ty = GL_VERTEX_SHADER then ''Vertex'' else ''Fragment''),
               Cout '' Shader!'', Endl, Cout ''ERROR: 0:4: syntax error'', Endl,
               GlDeleteShader (if ty = GL_VERTEX_SHADER then 1 else 2)])"
proof -
  have a: "glCreateShader env_bad ty tr =
     (if ty = GL_VERTEX_SHADER then 1 else 2, tr @ [GlCreateShader ty])"
    by (simp add: glCreateShader_def env_bad_simps)
  have b: "\<And>i tr. glGetShaderiv env_bad i GL_COMPILE_STATUS tr =
             (GL_FALSE, tr @ [GlGetShaderiv i GL_COMPILE_STATUS])"
    by (simp add: glGetShaderiv_def env_bad_simps)
  have c: "\<And>i tr. glGetShaderiv env_bad i GL_INFO_LOG_LENGTH tr =
             (25, tr @ [GlGetShaderiv i GL_INFO_LOG_LENGTH])"
    by (simp add: glGetShaderiv_def env_bad_simps)
  have d: "\<And>i n tr. glGetShaderInfoLog env_bad i n tr =
             ((24, ''ERROR: 0:4: syntax error''), tr @ [GlGetShaderInfoLog i n])"
    by (simp add: glGetShaderInfoLog_def env_bad_simps)
  have s: "size_t_of_int 25 * sizeof_char = 25"
    by (simp add: size_t_of_int_def sizeof_char_def)
  show ?thesis
    using CompileShader_failure [OF a b c d, of source] by (simp add: s)
qed





section \<open>The claims about CompileShader and CreateShader\<close>

text \<open>
  C1. Whatever the stage kind and the source text, when the compile-status query hands
  back \<^verbatim>\<open>GL_FALSE\<close>, \<^verbatim>\<open>CompileShader\<close> queries the length of the log, allocates
  \<open>length * sizeof(char)\<close> bytes (which is the length itself when it is not negative),
  fetches the log with that length as the buffer size, prints the line
  \<^verbatim>\<open>Failed to compile <kind> Shader!\<close> and then the log, deletes the stage handle it
  created, and returns 0. The hypotheses name the values the driver hands back. What
  the call writes to standard output starts with the line about the stage kind, so it is
  never empty; the log text after it is whatever the driver left in the buffer.
\<close>

theorem CompileShader_failure_path:
  assumes "glCreateShader e type' tr = (id', tr1)"
    and "glGetShaderiv e id' GL_COMPILE_STATUS
           (glCompileShader id' (glShaderSource id' 1 (c_str source) tr1)) = (GL_FALSE, tr4)"
    and "glGetShaderiv e id' GL_INFO_LOG_LENGTH tr4 = (len, tr5)"
    and "glGetShaderInfoLog e id' len (malloca (size_t_of_int len * sizeof_char) tr5) =
           ((len', message), tr7)"
  shows "CompileShader e type' source tr =
           (0, tr @ [GlCreateShader type', GlShaderSource id' 1 (c_str source),
                     GlCompileShader id', GlGetShaderiv id' GL_COMPILE_STATUS,
                     GlGetShaderiv id' GL_INFO_LOG_LENGTH,
                     Malloca (size_t_of_int len * sizeof_char),
                     GlGetShaderInfoLog id' len,
                     Cout ''Failed to compile '',
                     Cout (if type' = GL_VERTEX_SHADER then ''Vertex'' else ''Fragment''),
                     Cout '' Shader!'', Endl,
                     Cout message, Endl,
                     GlDeleteShader id']) \<and>
         (0 \<le> sint len \<longrightarrow> unat (size_t_of_int len * sizeof_char) = nat (sint len)) \<and>
         stdout_of (drop (length tr) (snd (CompileShader e type' source tr))) =
           ''Failed to compile '' @
           (if type' = GL_VERTEX_SHADER then ''Vertex'' else ''Fragment'') @
           '' Shader!'' @ ''\<newline>'' @ message @ ''\<newline>'' \<and>
         stdout_of (drop (length tr) (snd (CompileShader e type' source tr))) \<noteq> []"
proof -
  note run = CompileShader_failure [OF assms]
  have "0 \<le> sint len \<longrightarrow> unat (size_t_of_int len * sizeof_char) = nat (sint len)"
    by (simp add: size_t_of_length)
  moreover have "stdout_of (drop (length tr) (snd (CompileShader e type' source tr))) =
           ''Failed to compile '' @
           (if type' = GL_VERTEX_SHADER then ''Vertex'' else ''Fragment'') @
           '' Shader!'' @ ''\<newline>'' @ message @ ''\<newline>''"
    unfolding run by (simp add: stdout_of_def)
  ultimately show ?thesis using run by simp
qed

theorem CompileShader_failure_path_witness:
  "CompileShader env_bad GL_VERTEX_SHADER ''void main({'' [] =
     (0, [GlCreateShader GL_VERTEX_SHADER, GlShaderSource 1 1 ''void main({'',
          GlCompileShader 1, GlGetShaderiv 1 GL_COMPILE_STATUS,
          GlGetShaderiv 1 GL_INFO_LOG_LENGTH, Malloca 25, GlGetShaderInfoLog 1 25,
          Cout ''Failed to compile '', Cout ''Vertex'', Cout '' Shader!'', Endl,
          Cout ''ERROR: 0:4: syntax error'', Endl, GlDeleteShader 1]) \<and>
   0 \<le> sint (25 :: GLint) \<and> unat (size_t_of_int 25 * sizeof_char) = 25 \<and>
   stdout_of (drop (length ([] :: trace))
     (snd (CompileShader env_bad GL_VERTEX_SHADER ''void main({'' []))) =
     ''Failed to compile Vertex Shader!'' @ ''\<newline>'' @
     ''ERROR: 0:4: syntax error'' @ ''\<newline>''"
proof -
  have a: "glCreateShader env_bad GL_VERTEX_SHADER [] = (1, [GlCreateShader GL_VERTEX_SHADER])"
    by (simp add: glCreateShader_def env_bad_simps)
  have b: "glGetShaderiv env_bad 1 GL_COMPILE_STATUS
             (glCompileShader 1 (glShaderSource 1 1 (c_str ''void main({'')
                [GlCreateShader GL_VERTEX_SHADER])) =
           (GL_FALSE, [GlCreateShader GL_VERTEX_SHADER, GlShaderSource 1 1 ''void main({'',
                       GlCompileShader 1, GlGetShaderiv 1 GL_COMPILE_STATUS])"
    using env_bad_simps(3) [of "[GlCreateShader GL_VERTEX_SHADER,
      GlShaderSource 1 1 ''void main({'', GlCompileShader 1]" 1]
    by (simp add: glGetShaderiv_def glCompileShader_def glShaderSource_def c_str_def)
  have c: "glGetShaderiv env_bad 1 GL_INFO_LOG_LENGTH
             [GlCreateShader GL_VERTEX_SHADER, GlShaderSource 1 1 ''void main({'',
              GlCompileShader 1, GlGetShaderiv 1 GL_COMPILE_STATUS] =
           (25, [GlCreateShader GL_VERTEX_SHADER, GlShaderSource 1 1 ''void main({'',
                 GlCompileShader 1, GlGetShaderiv 1 GL_COMPILE_STATUS,
                 GlGetShaderiv 1 GL_INFO_LOG_LENGTH])"
    using env_bad_simps(4) [of "[GlCreateShader GL_VERTEX_SHADER,
      GlShaderSource 1 1 ''void main({'', GlCompileShader 1,
      GlGetShaderiv 1 GL_COMPILE_STATUS]" 1]
    by (simp add: glGetShaderiv_def)
  have d: "glGetShaderInfoLog env_bad 1 25 (malloca (size_t_of_int 25 * sizeof_char)
             [GlCreateShader GL_VERTEX_SHADER, GlShaderSource 1 1 ''void main({'',
              GlCompileShader 1, GlGetShaderiv 1 GL_COMPILE_STATUS,
              GlGetShaderiv 1 GL_INFO_LOG_LENGTH]) =
           ((24, ''ERROR: 0:4: syntax error''),
            [GlCreateShader GL_VERTEX_SHADER, GlShaderSource 1 1 ''void main({'',
             GlCompileShader 1, GlGetShaderiv 1 GL_COMPILE_STATUS,
             GlGetShaderiv 1 GL_INFO_LOG_LENGTH, Malloca 25, GlGetShaderInfoLog 1 25])"
    by (simp add: glGetShaderInfoLog_def malloca_def env_bad_simps size_t_of_int_def
        sizeof_char_def)
  have s: "size_t_of_int 25 * sizeof_char = 25"
    by (simp add: size_t_of_int_def sizeof_char_def)
  have p: "0 \<le> sint (25 :: GLint)" by simp
  note run = CompileShader_failure_path [OF a b c d]
  have "stdout_of (drop (length ([] :: trace))
     (snd (CompileShader env_bad GL_VERTEX_SHADER ''void main({'' []))) =
     ''Failed to compile Vertex Shader!'' @ ''\<newline>'' @
     ''ERROR: 0:4: syntax error'' @ ''\<newline>''"
    using run [THEN conjunct2, THEN conjunct2, THEN conjunct1] by simp
  moreover have "unat (size_t_of_int 25 * sizeof_char) = 25"
    using run [THEN conjunct2, THEN conjunct1] p by simp
  ultimately show ?thesis
    using run [THEN conjunct1] p by (simp add: c_str_def s)
qed

text \<open>
  C7. Whatever the stage kind and the source text, when the compile-status query hands
  back anything but \<^verbatim>\<open>GL_FALSE\<close>, \<^verbatim>\<open>CompileShader\<close> returns the handle that
  \<^verbatim>\<open>glCreateShader\<close> produced, after four calls none of which is a delete call. The
  returned handle is the created one unchanged, so it is nonzero when the driver
  produced a nonzero handle, as it does for a stage it could create.
\<close>

theorem CompileShader_success_path:
  assumes "glCreateShader e type' tr = (id', tr1)"
    and "glGetShaderiv e id' GL_COMPILE_STATUS
           (glCompileShader id' (glShaderSource id' 1 (c_str source) tr1)) = (result, tr4)"
    and "result \<noteq> GL_FALSE"
  shows "CompileShader e type' source tr =
           (id', tr @ [GlCreateShader type', GlShaderSource id' 1 (c_str source),
                       GlCompileShader id', GlGetShaderiv id' GL_COMPILE_STATUS]) \<and>
         filter is_delete (drop (length tr) (snd (CompileShader e type' source tr))) = [] \<and>
         (id' \<noteq> 0 \<longrightarrow> fst (CompileShader e type' source tr) \<noteq> 0)"
  unfolding CompileShader_success [OF assms] by (simp add: is_delete_def)

theorem CompileShader_success_path_witness:
  "CompileShader env_ok GL_FRAGMENT_SHADER fragmentShader [] =
     (2, [GlCreateShader GL_FRAGMENT_SHADER, GlShaderSource 2 1 fragmentShader,
          GlCompileShader 2, GlGetShaderiv 2 GL_COMPILE_STATUS]) \<and>
   fst (CompileShader env_ok GL_FRAGMENT_SHADER fragmentShader []) \<noteq> 0"
proof -
  have a: "glCreateShader env_ok GL_FRAGMENT_SHADER [] =
             (2, [GlCreateShader GL_FRAGMENT_SHADER])"
    by (simp add: glCreateShader_def env_ok_simps stage_kinds_differ)
  have b: "glGetShaderiv env_ok 2 GL_COMPILE_STATUS
             (glCompileShader 2 (glShaderSource 2 1 (c_str fragmentShader)
                [GlCreateShader GL_FRAGMENT_SHADER])) =
           (1, [GlCreateShader GL_FRAGMENT_SHADER, GlShaderSource 2 1 fragmentShader,
                GlCompileShader 2, GlGetShaderiv 2 GL_COMPILE_STATUS])"
    by (simp add: glGetShaderiv_def glCompileShader_def glShaderSource_def
        c_str_fragmentShader env_ok_simps)
  have c: "(1 :: GLint) \<noteq> GL_FALSE" by (simp add: GL_FALSE_def)
  have d: "(2 :: GLuint) \<noteq> 0" by simp
  note run = CompileShader_success_path [OF a b c]
  from run [THEN conjunct2, THEN conjunct2] d
  have "fst (CompileShader env_ok GL_FRAGMENT_SHADER fragmentShader []) \<noteq> 0" by simp
  with run [THEN conjunct1] show ?thesis
    by (simp add: c_str_fragmentShader)
qed

text \<open>
  C9. On the failure path the label that \<^verbatim>\<open>CompileShader\<close> prints is decided by the test
  \<^verbatim>\<open>type == GL_VERTEX_SHADER\<close> alone: the output is
  \<^verbatim>\<open>Failed to compile Vertex Shader!\<close> when the test holds and
  \<^verbatim>\<open>Failed to compile Fragment Shader!\<close> for every other value of \<^verbatim>\<open>type\<close>, whether or
  not it is \<^verbatim>\<open>GL_FRAGMENT_SHADER\<close>; the log follows in both cases.
\<close>

theorem CompileShader_stage_label:
  assumes "glCreateShader e type' tr = (id', tr1)"
    and "glGetShaderiv e id' GL_COMPILE_STATUS
           (glCompileShader id' (glShaderSource id' 1 (c_str source) tr1)) = (GL_FALSE, tr4)"
    and "glGetShaderiv e id' GL_INFO_LOG_LENGTH tr4 = (len, tr5)"
    and "glGetShaderInfoLog e id' len (malloca (size_t_of_int len * sizeof_char) tr5) =
           ((len', message), tr7)"
  shows "(type' = GL_VERTEX_SHADER \<longrightarrow>
            stdout_of (drop (length tr) (snd (CompileShader e type' source tr))) =
              ''Failed to compile Vertex Shader!'' @ ''\<newline>'' @ message @ ''\<newline>'') \<and>
         (type' \<noteq> GL_VERTEX_SHADER \<longrightarrow>
            stdout_of (drop (length tr) (snd (CompileShader e type' source tr))) =
              ''Failed to compile Fragment Shader!'' @ ''\<newline>'' @ message @ ''\<newline>'')"
  unfolding CompileShader_failure [OF assms] by (simp add: stdout_of_def)

theorem CompileShader_stage_label_witness:
  "stdout_of (drop (length ([] :: trace))
     (snd (CompileShader env_bad GL_VERTEX_SHADER ''x'' []))) =
     ''Failed to compile Vertex Shader!'' @ ''\<newline>'' @
     ''ERROR: 0:4: syntax error'' @ ''\<newline>'' \<and>
   (0x8DD9 :: GLenum) \<noteq> GL_VERTEX_SHADER \<and> (0x8DD9 :: GLenum) \<noteq> GL_FRAGMENT_SHADER \<and>
   stdout_of (drop (length ([] :: trace))
     (snd (CompileShader env_bad 0x8DD9 ''x'' []))) =
     ''Failed to compile Fragment Shader!'' @ ''\<newline>'' @
     ''ERROR: 0:4: syntax error'' @ ''\<newline>''"
proof -
  have a: "glCreateShader env_bad GL_VERTEX_SHADER [] = (1, [GlCreateShader GL_VERTEX_SHADER])"
    by (simp add: glCreateShader_def env_bad_simps)
  have b: "\<And>i tr. glGetShaderiv env_bad i GL_COMPILE_STATUS tr =
             (GL_FALSE, tr @ [GlGetShaderiv i GL_COMPILE_STATUS])"
    by (simp add: glGetShaderiv_def env_bad_simps)
  have c: "\<And>i tr. glGetShaderiv env_bad i GL_INFO_LOG_LENGTH tr =
             (25, tr @ [GlGetShaderiv i GL_INFO_LOG_LENGTH])"
    by (simp add: glGetShaderiv_def env_bad_simps)
  have d: "\<And>i n tr. glGetShaderInfoLog env_bad i n tr =
             ((24, ''ERROR: 0:4: syntax error''), tr @ [GlGetShaderInfoLog i n])"
    by (simp add: glGetShaderInfoLog_def env_bad_simps)
  have g: "(0x8DD9 :: GLenum) \<noteq> GL_VERTEX_SHADER" "(0x8DD9 :: GLenum) \<noteq> GL_FRAGMENT_SHADER"
    by (simp_all add: GL_VERTEX_SHADER_def GL_FRAGMENT_SHADER_def)
  have a': "glCreateShader env_bad 0x8DD9 [] = (2, [GlCreateShader 0x8DD9])"
    using g by (simp add: glCreateShader_def env_bad_simps)
  from CompileShader_stage_label [OF a b c d, of "''x''", THEN conjunct1]
  have v: "stdout_of (drop (length ([] :: trace))
     (snd (CompileShader env_bad GL_VERTEX_SHADER ''x'' []))) =
     ''Failed to compile Vertex Shader!'' @ ''\<newline>'' @
     ''ERROR: 0:4: syntax error'' @ ''\<newline>''" by simp
  from CompileShader_stage_label [OF a' b c d, of "''x''", THEN conjunct2] g(1)
  have f: "stdout_of (drop (length ([] :: trace))
     (snd (CompileShader env_bad 0x8DD9 ''x'' []))) =
     ''Failed to compile Fragment Shader!'' @ ''\<newline>'' @
     ''ERROR: 0:4: syntax error'' @ ''\<newline>''" by simp
  from v f g show ?thesis by simp
qed

text \<open>
  C2. Whatever the two source texts, \<^verbatim>\<open>CreateShader\<close> creates a program, compiles the
  vertex stage and then the fragment stage with \<^verbatim>\<open>CompileShader\<close>, and goes on with
  exactly six calls: it attaches the vertex handle and the fragment handle to the program,
  links the program, validates it and deletes the two stage handles. It returns the
  handle that \<^verbatim>\<open>glCreateProgram\<close> produced. Nothing in the sequence depends on what a
  compilation returned: a stage handle that is 0 is attached all the same, and no status
  of the program is queried.
\<close>

theorem CreateShader_sequence:
  assumes "glCreateProgram e tr = (program, tr1)"
    and "CompileShader e GL_VERTEX_SHADER vertexSource tr1 = (vs, tr2)"
    and "CompileShader e GL_FRAGMENT_SHADER fragmentSource tr2 = (fs, tr3)"
  shows "tr1 = tr @ [GlCreateProgram] \<and>
         program = ret_glCreateProgram e (tr @ [GlCreateProgram]) \<and>
         CreateShader e vertexSource fragmentSource tr =
           (program, tr3 @ [GlAttachShader program vs, GlAttachShader program fs,
                            GlLinkProgram program, GlValidateProgram program,
                            GlDeleteShader vs, GlDeleteShader fs]) \<and>
         (vs = 0 \<longrightarrow> GlAttachShader program 0 \<in> set (snd (CreateShader e vertexSource fragmentSource tr))) \<and>
         (fs = 0 \<longrightarrow> GlAttachShader program 0 \<in> set (snd (CreateShader e vertexSource fragmentSource tr)))"
proof -
  have "tr1 = tr @ [GlCreateProgram]" "program = ret_glCreateProgram e (tr @ [GlCreateProgram])"
    using assms(1) by (auto simp: glCreateProgram_def Let_def)
  then show ?thesis unfolding CreateShader_eq [OF assms] by simp
qed

theorem CreateShader_sequence_witness:
  "CompileShader env_bad GL_VERTEX_SHADER ''a'' [GlCreateProgram] =
     (0, [GlCreateProgram, GlCreateShader GL_VERTEX_SHADER, GlShaderSource 1 1 ''a'',
          GlCompileShader 1, GlGetShaderiv 1 GL_COMPILE_STATUS,
          GlGetShaderiv 1 GL_INFO_LOG_LENGTH, Malloca 25, GlGetShaderInfoLog 1 25,
          Cout ''Failed to compile '', Cout ''Vertex'', Cout '' Shader!'', Endl,
          Cout ''ERROR: 0:4: syntax error'', Endl, GlDeleteShader 1]) \<and>
   fst (CreateShader env_bad ''a'' ''b'' []) = 3 \<and>
   drop 29 (snd (CreateShader env_bad ''a'' ''b'' [])) =
     [GlAttachShader 3 0, GlAttachShader 3 0, GlLinkProgram 3, GlValidateProgram 3,
      GlDeleteShader 0, GlDeleteShader 0] \<and>
   GlAttachShader 3 0 \<in> set (snd (CreateShader env_bad ''a'' ''b'' []))"
proof -
  have p: "glCreateProgram env_bad [] = (3, [GlCreateProgram])"
    by (simp add: glCreateProgram_def env_bad_simps)
  have v: "CompileShader env_bad GL_VERTEX_SHADER ''a'' [GlCreateProgram] =
     (0, [GlCreateProgram, GlCreateShader GL_VERTEX_SHADER, GlShaderSource 1 1 ''a'',
          GlCompileShader 1, GlGetShaderiv 1 GL_COMPILE_STATUS,
          GlGetShaderiv 1 GL_INFO_LOG_LENGTH, Malloca 25, GlGetShaderInfoLog 1 25,
          Cout ''Failed to compile '', Cout ''Vertex'', Cout '' Shader!'', Endl,
          Cout ''ERROR: 0:4: syntax error'', Endl, GlDeleteShader 1])"
    by (simp add: CompileShader_env_bad c_str_def)
  have f: "CompileShader env_bad GL_FRAGMENT_SHADER ''b''
     [GlCreateProgram, GlCreateShader GL_VERTEX_SHADER, GlShaderSource 1 1 ''a'',
          GlCompileShader 1, GlGetShaderiv 1 GL_COMPILE_STATUS,
          GlGetShaderiv 1 GL_INFO_LOG_LENGTH, Malloca 25, GlGetShaderInfoLog 1 25,
          Cout ''Failed to compile '', Cout ''Vertex'', Cout '' Shader!'', Endl,
          Cout ''ERROR: 0:4: syntax error'', Endl, GlDeleteShader 1] =
     (0, [GlCreateProgram, GlCreateShader GL_VERTEX_SHADER, GlShaderSource 1 1 ''a'',
          GlCompileShader 1, GlGetShaderiv 1 GL_COMPILE_STATUS,
          GlGetShaderiv 1 GL_INFO_LOG_LENGTH, Malloca 25, GlGetShaderInfoLog 1 25,
          Cout ''Failed to compile '', Cout ''Vertex'', Cout '' Shader!'', Endl,
          Cout ''ERROR: 0:4: syntax error'', Endl, GlDeleteShader 1,
          GlCreateShader GL_FRAGMENT_SHADER, GlShaderSource 2 1 ''b'',
          GlCompileShader 2, GlGetShaderiv 2 GL_COMPILE_STATUS,
          GlGetShaderiv 2 GL_INFO_LOG_LENGTH, Malloca 25, GlGetShaderInfoLog 2 25,
          Cout ''Failed to compile '', Cout ''Fragment'', Cout '' Shader!'', Endl,
          Cout ''ERROR: 0:4: syntax error'', Endl, GlDeleteShader 2])"
    by (simp add: CompileShader_env_bad c_str_def stage_kinds_differ)
  note run = CreateShader_sequence [OF p v f]
  have r: "CreateShader env_bad ''a'' ''b'' [] =
     (3, [GlCreateProgram, GlCreateShader GL_VERTEX_SHADER, GlShaderSource 1 1 ''a'',
          GlCompileShader 1, GlGetShaderiv 1 GL_COMPILE_STATUS,
          GlGetShaderiv 1 GL_INFO_LOG_LENGTH, Malloca 25, GlGetShaderInfoLog 1 25,
          Cout ''Failed to compile '', Cout ''Vertex'', Cout '' Shader!'', Endl,
          Cout ''ERROR: 0:4: syntax error'', Endl, GlDeleteShader 1,
          GlCreateShader GL_FRAGMENT_SHADER, GlShaderSource 2 1 ''b'',
          GlCompileShader 2, GlGetShaderiv 2 GL_COMPILE_STATUS,
          GlGetShaderiv 2 GL_INFO_LOG_LENGTH, Malloca 25, GlGetShaderInfoLog 2 25,
          Cout ''Failed to compile '', Cout ''Fragment'', Cout '' Shader!'', Endl,
          Cout ''ERROR: 0:4: syntax error'', Endl, GlDeleteShader 2,
          GlAttachShader 3 0, GlAttachShader 3 0, GlLinkProgram 3, GlValidateProgram 3,
          GlDeleteShader 0, GlDeleteShader 0])"
    using run [THEN conjunct2, THEN conjunct2, THEN conjunct1] by simp
  have a: "GlAttachShader 3 0 \<in> set (snd (CreateShader env_bad ''a'' ''b'' []))"
    using run [THEN conjunct2, THEN conjunct2, THEN conjunct2, THEN conjunct1] by simp
  from v a show ?thesis unfolding r by simp
qed

section \<open>The claims about main\<close>

text \<open>
  C10. When \<^verbatim>\<open>glfwInit\<close> fails, \<^verbatim>\<open>main\<close> returns \<open>-1\<close> after that one call, so without
  calling \<^verbatim>\<open>glfwTerminate\<close>. When \<^verbatim>\<open>glfwInit\<close> succeeds and \<^verbatim>\<open>glfwCreateWindow\<close> returns
  the null pointer, \<^verbatim>\<open>main\<close> calls \<^verbatim>\<open>glfwTerminate\<close> and then returns \<open>-1\<close>.
\<close>

theorem main_failure_paths:
  "(fst (glfwInit e []) = 0 \<longrightarrow>
      main e = Some (- 1, [GlfwInit]) \<and> GlfwTerminate \<notin> set [GlfwInit]) \<and>
   (fst (glfwInit e []) \<noteq> 0 \<and>
    fst (glfwCreateWindow e 640 480 ''Hello World'' [GlfwInit]) = NULL \<longrightarrow>
      main e = Some (- 1, [GlfwInit, GlfwCreateWindow 640 480 ''Hello World'', GlfwTerminate]))"
  using main_init_failed [of e] main_window_failed [of e] by simp

theorem main_failure_paths_witness:
  "fst (glfwInit env_no_init []) = 0 \<and>
   main env_no_init = Some (- 1, [GlfwInit]) \<and>
   fst (glfwInit env_no_window []) \<noteq> 0 \<and>
   fst (glfwCreateWindow env_no_window 640 480 ''Hello World'' [GlfwInit]) = NULL \<and>
   main env_no_window =
     Some (- 1, [GlfwInit, GlfwCreateWindow 640 480 ''Hello World'', GlfwTerminate])"
proof -
  have a: "fst (glfwInit env_no_init []) = 0"
    by (simp add: glfwInit_def env_no_init_simps)
  have b: "fst (glfwInit env_no_window []) \<noteq> 0"
    by (simp add: glfwInit_def env_no_window_simps)
  have c: "fst (glfwCreateWindow env_no_window 640 480 ''Hello World'' [GlfwInit]) = NULL"
    by (simp add: glfwCreateWindow_def env_no_window_simps)
  from main_failure_paths [of env_no_init, THEN conjunct1] a
  have "main env_no_init = Some (- 1, [GlfwInit])" by simp
  moreover from main_failure_paths [of env_no_window, THEN conjunct2] b c
  have "main env_no_window =
     Some (- 1, [GlfwInit, GlfwCreateWindow 640 480 ''Hello World'', GlfwTerminate])"
    by simp
  ultimately show ?thesis using a b c by simp
qed

text \<open>
  C4. \<^verbatim>\<open>main\<close> returns \<open>-1\<close> when \<^verbatim>\<open>glfwInit\<close> fails and when \<^verbatim>\<open>glfwCreateWindow\<close> fails.
  When both succeed it returns 0 if the frame loop ends and does not return otherwise.
  So the only exit codes are \<open>-1\<close> and 0, the code \<open>-1\<close> comes from one of the two
  failures only, and a run with code 0 ends with a query of the window-close flag that
  was answered with a nonzero value, followed by the two calls of the shutdown.
\<close>

theorem main_exit_code:
  assumes "w = fst (glfwCreateWindow e 640 480 ''Hello World'' [GlfwInit])"
    and "tr14 = snd (main_setup e w [GlfwInit, GlfwCreateWindow 640 480 ''Hello World''])"
  shows "(fst (glfwInit e []) = 0 \<longrightarrow> map_option fst (main e) = Some (- 1)) \<and>
         (fst (glfwInit e []) \<noteq> 0 \<and> w = NULL \<longrightarrow> map_option fst (main e) = Some (- 1)) \<and>
         (fst (glfwInit e []) \<noteq> 0 \<and> w \<noteq> NULL \<longrightarrow>
            map_option fst (main e) = (if frame_loop e w tr14 = None then None else Some 0)) \<and>
         (\<forall>c tr. main e = Some (c, tr) \<longrightarrow> c = - 1 \<or> c = 0) \<and>
         (\<forall>tr. main e = Some (- 1, tr) \<longrightarrow> fst (glfwInit e []) = 0 \<or> w = NULL) \<and>
         (\<forall>tr. main e = Some (0, tr) \<longrightarrow>
            (\<exists>pre p. tr = pre @ [GlfwWindowShouldClose w, GlDeleteShader p, GlfwTerminate] \<and>
                     ret_glfwWindowShouldClose e (pre @ [GlfwWindowShouldClose w]) \<noteq> 0))"
proof (intro conjI allI impI)
  assume "fst (glfwInit e []) = 0"
  then show "map_option fst (main e) = Some (- 1)" by (simp add: main_init_failed)
next
  assume "fst (glfwInit e []) \<noteq> 0 \<and> w = NULL"
  then show "map_option fst (main e) = Some (- 1)"
    using assms(1) by (simp add: main_window_failed)
next
  assume a: "fst (glfwInit e []) \<noteq> 0 \<and> w \<noteq> NULL"
  obtain shader where s:
    "main_setup e w [GlfwInit, GlfwCreateWindow 640 480 ''Hello World''] = (shader, tr14)"
    using assms(2) by (cases "main_setup e w [GlfwInit, GlfwCreateWindow 640 480 ''Hello World'']") simp
  from a assms(1) s have "main e = (case frame_loop e w tr14 of
                     None \<Rightarrow> None
                   | Some tr15 \<Rightarrow> Some (0, tr15 @ [GlDeleteShader shader, GlfwTerminate]))"
    by (intro main_window_created) simp_all
  then show "map_option fst (main e) = (if frame_loop e w tr14 = None then None else Some 0)"
    by (simp split: option.splits)
next
  fix c tr assume "main e = Some (c, tr)"
  from main_cases [OF this assms(1) refl] show "c = - 1 \<or> c = 0" by auto
next
  fix tr assume "main e = Some (- 1, tr)"
  from main_cases [OF this assms(1) refl] show "fst (glfwInit e []) = 0 \<or> w = NULL" by auto
next
  fix tr assume "main e = Some (0, tr)"
  from main_cases [OF this assms(1) refl] obtain n where
    n: "closes_at e w tr14 n"
       "tr = tr14 @ frames n w @
          [GlfwWindowShouldClose w,
           GlDeleteShader (fst (main_setup e w [GlfwInit, GlfwCreateWindow 640 480 ''Hello World''])),
           GlfwTerminate]"
    unfolding assms(2) by auto
  show "\<exists>pre p. tr = pre @ [GlfwWindowShouldClose w, GlDeleteShader p, GlfwTerminate] \<and>
                ret_glfwWindowShouldClose e (pre @ [GlfwWindowShouldClose w]) \<noteq> 0"
    using n by (intro exI [of _ "tr14 @ frames n w"]
        exI [of _ "fst (main_setup e w [GlfwInit, GlfwCreateWindow 640 480 ''Hello World''])"])
      (simp add: closes_at_def)
qed

theorem main_exit_code_witness:
  "fst (glfwInit env_no_init []) = 0 \<and> map_option fst (main env_no_init) = Some (- 1) \<and>
   fst (glfwInit env_no_window []) \<noteq> 0 \<and>
   fst (glfwCreateWindow env_no_window 640 480 ''Hello World'' [GlfwInit]) = NULL \<and>
   map_option fst (main env_no_window) = Some (- 1) \<and>
   fst (glfwInit env_ok []) \<noteq> 0 \<and>
   fst (glfwCreateWindow env_ok 640 480 ''Hello World'' [GlfwInit]) \<noteq> NULL \<and>
   main env_ok = Some (0, run_ok) \<and>
   map_option fst (main env_ok) = Some 0 \<and>
   (\<exists>pre p. run_ok = pre @ [GlfwWindowShouldClose 7, GlDeleteShader p, GlfwTerminate] \<and>
            ret_glfwWindowShouldClose env_ok (pre @ [GlfwWindowShouldClose 7]) \<noteq> 0)"
proof -
  have a: "fst (glfwInit env_no_init []) = 0"
    by (simp add: glfwInit_def env_no_init_simps)
  have b: "fst (glfwInit env_no_window []) \<noteq> 0"
    by (simp add: glfwInit_def env_no_window_simps)
  have c: "fst (glfwCreateWindow env_no_window 640 480 ''Hello World'' [GlfwInit]) = NULL"
    by (simp add: glfwCreateWindow_def env_no_window_simps)
  have i: "fst (glfwInit env_ok []) \<noteq> 0" by (simp add: glfwInit_def env_ok_simps)
  have w: "fst (glfwCreateWindow env_ok 640 480 ''Hello World'' [GlfwInit]) = 7"
    by (simp add: glfwCreateWindow_def env_ok_simps)
  have n: "(7::nat) \<noteq> NULL" by (simp add: NULL_def)
  from main_exit_code [OF refl refl, of env_no_init, THEN conjunct1] a
  have 1: "map_option fst (main env_no_init) = Some (- 1)" by simp
  from main_exit_code [OF refl refl, of env_no_window, THEN conjunct2, THEN conjunct1] b c
  have 2: "map_option fst (main env_no_window) = Some (- 1)" by simp
  from main_exit_code [OF w [symmetric] refl, THEN conjunct2, THEN conjunct2, THEN conjunct2,
      THEN conjunct2, THEN conjunct2] main_env_ok
  have 3: "\<exists>pre p. run_ok = pre @ [GlfwWindowShouldClose 7, GlDeleteShader p, GlfwTerminate] \<and>
            ret_glfwWindowShouldClose env_ok (pre @ [GlfwWindowShouldClose 7]) \<noteq> 0"
    by blast
  from a b c i w n 1 2 3 main_env_ok show ?thesis by simp
qed

text \<open>
  C5. The only \<^verbatim>\<open>glBufferData\<close> call of a run is the one of line 124: it uploads to
  \<^verbatim>\<open>GL_ARRAY_BUFFER\<close> the six numbers \<open>-0.5, -0.5, 0.0, 0.5, 0.5, -0.5\<close> in this order,
  with size \<open>6 * sizeof(float)\<close> and usage \<^verbatim>\<open>GL_STATIC_DRAW\<close>. Lines 94 to 164 add exactly
  this one buffer-data call to the trace, the frame loop adds none, and a run that ends
  with code 0 holds it as its only buffer-data call, so nothing rewrites the buffer after
  the upload. A run that ends with code \<open>-1\<close> uploads nothing.
\<close>

theorem main_vertex_buffer:
  "filter is_buffer_data (snd (main_setup e w tr0)) =
     filter is_buffer_data tr0 @
     [GlBufferData GL_ARRAY_BUFFER (6 * sizeof_float) [- 0.5, - 0.5, 0.0, 0.5, 0.5, - 0.5]
        GL_STATIC_DRAW] \<and>
   (\<forall>tr1 tr2. frame_loop e w tr1 = Some tr2 \<longrightarrow>
      filter is_buffer_data tr2 = filter is_buffer_data tr1) \<and>
   (\<forall>c tr. main e = Some (c, tr) \<longrightarrow>
      filter is_buffer_data tr =
        (if c = 0
         then [GlBufferData GL_ARRAY_BUFFER (6 * sizeof_float)
                 [- 0.5, - 0.5, 0.0, 0.5, 0.5, - 0.5] GL_STATIC_DRAW]
         else []))"
proof (intro conjI allI impI)
  have upload: "filter is_buffer_data (snd (main_setup e w tr0)) =
     filter is_buffer_data tr0 @
     [GlBufferData GL_ARRAY_BUFFER (6 * sizeof_float) [- 0.5, - 0.5, 0.0, 0.5, 0.5, - 0.5]
        GL_STATIC_DRAW]" for w tr0
  proof -
    obtain shader tr14 where s: "main_setup e w tr0 = (shader, tr14)"
      by (cases "main_setup e w tr0")
    from main_setup_shape [OF s] obtain version bufferID cs where
      "tr14 = tr0 @ [GlfwMakeContextCurrent w, GlewInit] @
            (if fst (glewInit e (glfwMakeContextCurrent w tr0)) \<noteq> GLEW_OK
             then [Cout ''Error!'', Endl] else []) @
            [GlGetString GL_VERSION, Cout version, Endl] @ vertex_buffer_calls bufferID @
            cs @ [GlUseProgram shader]"
      and "filter is_buffer_data cs = []" by blast
    then show ?thesis
      unfolding s by (simp add: is_buffer_data_def vertex_buffer_calls_def)
  qed
  show "filter is_buffer_data (snd (main_setup e w tr0)) =
     filter is_buffer_data tr0 @
     [GlBufferData GL_ARRAY_BUFFER (6 * sizeof_float) [- 0.5, - 0.5, 0.0, 0.5, 0.5, - 0.5]
        GL_STATIC_DRAW]" by (rule upload)
  {
    fix tr1 tr2 assume "frame_loop e w tr1 = Some tr2"
    from frame_loop_returns [OF this] obtain n where
      "tr2 = tr1 @ frames n w @ [GlfwWindowShouldClose w]" by blast
    then show "filter is_buffer_data tr2 = filter is_buffer_data tr1"
      by (simp add: frames_no_buffer_data is_buffer_data_def)
  }
  {
    fix c tr assume m: "main e = Some (c, tr)"
    define w' where "w' = fst (glfwCreateWindow e 640 480 ''Hello World'' [GlfwInit])"
    from main_cases [OF m w'_def refl]
    show "filter is_buffer_data tr =
        (if c = 0
         then [GlBufferData GL_ARRAY_BUFFER (6 * sizeof_float)
                 [- 0.5, - 0.5, 0.0, 0.5, 0.5, - 0.5] GL_STATIC_DRAW]
         else [])"
      by (auto simp: upload frames_no_buffer_data is_buffer_data_def)
  }
qed

theorem main_vertex_buffer_witness:
  "main env_ok = Some (0, run_ok) \<and>
   filter is_buffer_data run_ok =
     [GlBufferData GL_ARRAY_BUFFER 24 [- 0.5, - 0.5, 0.0, 0.5, 0.5, - 0.5] GL_STATIC_DRAW] \<and>
   main env_no_init = Some (- 1, [GlfwInit]) \<and>
   filter is_buffer_data [GlfwInit] = []"
proof -
  have a: "main env_no_init = Some (- 1, [GlfwInit])"
    by (rule main_init_failed) (simp add: glfwInit_def env_no_init_simps)
  from main_vertex_buffer [of env_ok, THEN conjunct2, THEN conjunct2] main_env_ok
  have "filter is_buffer_data run_ok =
     [GlBufferData GL_ARRAY_BUFFER (6 * sizeof_float) [- 0.5, - 0.5, 0.0, 0.5, 0.5, - 0.5]
        GL_STATIC_DRAW]" by fastforce
  moreover from main_vertex_buffer [of env_no_init, THEN conjunct2, THEN conjunct2] a
  have "filter is_buffer_data [GlfwInit] = []" by fastforce
  ultimately show ?thesis using a main_env_ok by (simp add: sizeof_float_def)
qed

text \<open>
  C6. One pass of the frame loop is the query of the window-close flag followed by
  \<^verbatim>\<open>glClear\<close>, one \<^verbatim>\<open>glDrawArrays(GL_TRIANGLES, 0, 3)\<close>, \<^verbatim>\<open>glfwSwapBuffers\<close> and
  \<^verbatim>\<open>glfwPollEvents\<close>, in this order; the loop goes on with the next pass when the flag was
  0 and ends otherwise. The loop ends if and only if some query finds the flag set. When
  it ends, it has run as many whole passes as there were queries answered 0, and it has
  issued one draw call in each of them. In a run of \<^verbatim>\<open>main\<close> that returns 0 no draw call
  is issued outside these passes.
\<close>

theorem frame_loop_iterations:
  "frame_loop e w tr =
     (if ret_glfwWindowShouldClose e (tr @ [GlfwWindowShouldClose w]) = 0
      then frame_loop e w
             (tr @ [GlfwWindowShouldClose w, GlClear GL_COLOR_BUFFER_BIT,
                    GlDrawArrays GL_TRIANGLES 0 3, GlfwSwapBuffers w, GlfwPollEvents])
      else Some (tr @ [GlfwWindowShouldClose w])) \<and>
   (frame_loop e w tr \<noteq> None) = (\<exists>n. closes_at e w tr n) \<and>
   (\<forall>tr'. frame_loop e w tr = Some tr' \<longrightarrow>
      (\<exists>n. closes_at e w tr n \<and> (\<forall>m<n. \<not> closes_at e w tr m) \<and>
           tr' = tr @ frames n w @ [GlfwWindowShouldClose w] \<and>
           filter is_draw (frames n w) = replicate n (GlDrawArrays GL_TRIANGLES 0 3))) \<and>
   (\<forall>run. main e = Some (0, run) \<longrightarrow>
      (\<exists>pre n window p.
         filter is_draw pre = [] \<and>
         run = pre @ frames n window @
               [GlfwWindowShouldClose window, GlDeleteShader p, GlfwTerminate]))"
proof (intro conjI allI impI)
  show "frame_loop e w tr =
     (if ret_glfwWindowShouldClose e (tr @ [GlfwWindowShouldClose w]) = 0
      then frame_loop e w
             (tr @ [GlfwWindowShouldClose w, GlClear GL_COLOR_BUFFER_BIT,
                    GlDrawArrays GL_TRIANGLES 0 3, GlfwSwapBuffers w, GlfwPollEvents])
      else Some (tr @ [GlfwWindowShouldClose w]))"
    using frame_loop_unfold [of e w tr] by (simp add: frame_calls_def)
  show "(frame_loop e w tr \<noteq> None) = (\<exists>n. closes_at e w tr n)"
    by (rule frame_loop_terminates_iff)
  {
    fix tr' assume "frame_loop e w tr = Some tr'"
    from frame_loop_returns [OF this]
    show "\<exists>n. closes_at e w tr n \<and> (\<forall>m<n. \<not> closes_at e w tr m) \<and>
           tr' = tr @ frames n w @ [GlfwWindowShouldClose w] \<and>
           filter is_draw (frames n w) = replicate n (GlDrawArrays GL_TRIANGLES 0 3)"
      by (simp add: frames_draws)
  }
  {
    fix run assume m: "main e = Some (0, run)"
    define window where "window = fst (glfwCreateWindow e 640 480 ''Hello World'' [GlfwInit])"
    define tr2 where "tr2 = [GlfwInit, GlfwCreateWindow 640 480 ''Hello World'']"
    obtain shader tr14 where s: "main_setup e window tr2 = (shader, tr14)"
      by (cases "main_setup e window tr2")
    from main_cases [OF m window_def tr2_def] s obtain n where
      n: "run = tr14 @ frames n window @
                [GlfwWindowShouldClose window, GlDeleteShader shader, GlfwTerminate]"
      by auto
    from main_setup_shape [OF s] obtain version bufferID cs where
      "tr14 = tr2 @ [GlfwMakeContextCurrent window, GlewInit] @
            (if fst (glewInit e (glfwMakeContextCurrent window tr2)) \<noteq> GLEW_OK
             then [Cout ''Error!'', Endl] else []) @
            [GlGetString GL_VERSION, Cout version, Endl] @ vertex_buffer_calls bufferID @
            cs @ [GlUseProgram shader]"
      and "filter is_draw cs = []" by blast
    then have "filter is_draw tr14 = []"
      by (simp add: tr2_def is_draw_def vertex_buffer_calls_def)
    with n show "\<exists>pre n window p.
         filter is_draw pre = [] \<and>
         run = pre @ frames n window @
               [GlfwWindowShouldClose window, GlDeleteShader p, GlfwTerminate]"
      by blast
  }
qed

theorem frame_loop_iterations_witness:
  "\<not> closes_at env_ok 7 [] 0 \<and> closes_at env_ok 7 [] 1 \<and>
   frame_loop env_ok 7 [] \<noteq> None \<and>
   frame_loop env_ok 7 [] =
     Some [GlfwWindowShouldClose 7, GlClear GL_COLOR_BUFFER_BIT,
           GlDrawArrays GL_TRIANGLES 0 3, GlfwSwapBuffers 7, GlfwPollEvents,
           GlfwWindowShouldClose 7] \<and>
   main env_ok = Some (0, run_ok) \<and>
   (\<exists>pre n window p.
      filter is_draw pre = [] \<and>
      run_ok = pre @ frames n window @
               [GlfwWindowShouldClose window, GlDeleteShader p, GlfwTerminate])"
proof -
  have c0: "\<not> closes_at env_ok 7 [] 0"
    by (simp add: closes_at_def env_ok_simps)
  have c1: "closes_at env_ok 7 [] 1"
    by (simp add: closes_at_def env_ok_simps frame_calls_def)
  from frame_loop_iterations [of env_ok 7 "[]", THEN conjunct2, THEN conjunct1] c1
  have t: "frame_loop env_ok 7 [] \<noteq> None" by blast
  then obtain tr' where r: "frame_loop env_ok 7 [] = Some tr'" by blast
  from frame_loop_iterations [of env_ok 7 "[]", THEN conjunct2, THEN conjunct2,
      THEN conjunct1] r
  obtain n where n: "closes_at env_ok 7 [] n" "\<forall>m<n. \<not> closes_at env_ok 7 [] m"
    "tr' = [] @ frames n 7 @ [GlfwWindowShouldClose 7]" by blast
  from n(1) c0 have "n \<noteq> 0" by (cases n) auto
  moreover from n(2) c1 have "\<not> 1 < n" by blast
  ultimately have "n = 1" by simp
  with n(3) r have l: "frame_loop env_ok 7 [] =
     Some [GlfwWindowShouldClose 7, GlClear GL_COLOR_BUFFER_BIT,
           GlDrawArrays GL_TRIANGLES 0 3, GlfwSwapBuffers 7, GlfwPollEvents,
           GlfwWindowShouldClose 7]"
    by (simp add: frame_calls_def)
  from frame_loop_iterations [of env_ok 7 "[]", THEN conjunct2, THEN conjunct2,
      THEN conjunct2] main_env_ok
  have "\<exists>pre n window p.
      filter is_draw pre = [] \<and>
      run_ok = pre @ frames n window @
               [GlfwWindowShouldClose window, GlDeleteShader p, GlfwTerminate]" by blast
  with c0 c1 t l main_env_ok show ?thesis by simp
qed

text \<open>
  C8. When \<^verbatim>\<open>glfwInit\<close> and \<^verbatim>\<open>glfwCreateWindow\<close> succeed and \<^verbatim>\<open>glewInit\<close> returns anything
  but \<^verbatim>\<open>GLEW_OK\<close>, \<^verbatim>\<open>main\<close> prints \<^verbatim>\<open>Error!\<close> and a newline right after \<^verbatim>\<open>glewInit\<close>
  and goes on as it does otherwise: the version string, the vertex buffer, the shader
  program, \<^verbatim>\<open>glUseProgram\<close>, the frame loop, and, when the loop ends, the shutdown and
  exit code 0. It never returns \<open>-1\<close>.
\<close>

theorem main_glew_failure:
  assumes "fst (glfwInit e []) \<noteq> 0"
    and "fst (glfwCreateWindow e 640 480 ''Hello World'' [GlfwInit]) = w"
    and "w \<noteq> NULL"
    and "tr2 = [GlfwInit, GlfwCreateWindow 640 480 ''Hello World'']"
    and "fst (glewInit e (glfwMakeContextCurrent w tr2)) \<noteq> GLEW_OK"
  shows "(\<exists>version bufferID cs shader.
            CreateShader e vertexShader fragmentShader
              (tr2 @ [GlfwMakeContextCurrent w, GlewInit, Cout ''Error!'', Endl,
                      GlGetString GL_VERSION, Cout version, Endl] @
               vertex_buffer_calls bufferID) =
              (shader,
               tr2 @ [GlfwMakeContextCurrent w, GlewInit, Cout ''Error!'', Endl,
                      GlGetString GL_VERSION, Cout version, Endl] @
               vertex_buffer_calls bufferID @ cs) \<and>
            main_setup e w tr2 =
              (shader,
               tr2 @ [GlfwMakeContextCurrent w, GlewInit, Cout ''Error!'', Endl,
                      GlGetString GL_VERSION, Cout version, Endl] @
               vertex_buffer_calls bufferID @ cs @ [GlUseProgram shader])) \<and>
         main e =
           (case frame_loop e w (snd (main_setup e w tr2)) of
              None \<Rightarrow> None
            | Some tr15 \<Rightarrow>
                Some (0, tr15 @ [GlDeleteShader (fst (main_setup e w tr2)), GlfwTerminate])) \<and>
         (\<forall>tr. main e \<noteq> Some (- 1, tr))"
proof -
  obtain shader tr14 where s: "main_setup e w tr2 = (shader, tr14)"
    by (cases "main_setup e w tr2")
  from main_setup_shape [OF s] assms(5) obtain version bufferID cs where
    c: "CreateShader e vertexShader fragmentShader
              (tr2 @ [GlfwMakeContextCurrent w, GlewInit, Cout ''Error!'', Endl,
                      GlGetString GL_VERSION, Cout version, Endl] @
               vertex_buffer_calls bufferID) =
              (shader,
               tr2 @ [GlfwMakeContextCurrent w, GlewInit, Cout ''Error!'', Endl,
                      GlGetString GL_VERSION, Cout version, Endl] @
               vertex_buffer_calls bufferID @ cs)"
    and t: "tr14 = tr2 @ [GlfwMakeContextCurrent w, GlewInit, Cout ''Error!'', Endl,
                      GlGetString GL_VERSION, Cout version, Endl] @
               vertex_buffer_calls bufferID @ cs @ [GlUseProgram shader]"
    by auto
  have m: "main e =
           (case frame_loop e w tr14 of
              None \<Rightarrow> None
            | Some tr15 \<Rightarrow> Some (0, tr15 @ [GlDeleteShader shader, GlfwTerminate]))"
    using assms(1-3) s [unfolded assms(4)] by (rule main_window_created)
  then have never: "\<forall>tr. main e \<noteq> Some (- 1, tr)"
    by (simp split: option.splits)
  have driver: "main e =
           (case frame_loop e w (snd (main_setup e w tr2)) of
              None \<Rightarrow> None
            | Some tr15 \<Rightarrow>
                Some (0, tr15 @ [GlDeleteShader (fst (main_setup e w tr2)), GlfwTerminate]))"
    unfolding s fst_conv snd_conv by (rule m)
  have "main_setup e w tr2 =
              (shader,
               tr2 @ [GlfwMakeContextCurrent w, GlewInit, Cout ''Error!'', Endl,
                      GlGetString GL_VERSION, Cout version, Endl] @
               vertex_buffer_calls bufferID @ cs @ [GlUseProgram shader])"
    using s t by simp
  with c have "\<exists>version bufferID cs shader.
            CreateShader e vertexShader fragmentShader
              (tr2 @ [GlfwMakeContextCurrent w, GlewInit, Cout ''Error!'', Endl,
                      GlGetString GL_VERSION, Cout version, Endl] @
               vertex_buffer_calls bufferID) =
              (shader,
               tr2 @ [GlfwMakeContextCurrent w, GlewInit, Cout ''Error!'', Endl,
                      GlGetString GL_VERSION, Cout version, Endl] @
               vertex_buffer_calls bufferID @ cs) \<and>
            main_setup e w tr2 =
              (shader,
               tr2 @ [GlfwMakeContextCurrent w, GlewInit, Cout ''Error!'', Endl,
                      GlGetString GL_VERSION, Cout version, Endl] @
               vertex_buffer_calls bufferID @ cs @ [GlUseProgram shader])"
    by blast
  with driver never show ?thesis by (intro conjI)
qed

theorem main_glew_failure_witness:
  "fst (glfwInit env_no_glew []) \<noteq> 0 \<and>
   fst (glfwCreateWindow env_no_glew 640 480 ''Hello World'' [GlfwInit]) = 7 \<and>
   (7 :: nat) \<noteq> NULL \<and>
   fst (glewInit env_no_glew
          (glfwMakeContextCurrent 7 [GlfwInit, GlfwCreateWindow 640 480 ''Hello World''])) \<noteq>
     GLEW_OK \<and>
   main env_no_glew = Some (0, run_no_glew) \<and>
   (\<forall>tr. main env_no_glew \<noteq> Some (- 1, tr)) \<and>
   take 8 run_no_glew =
     [GlfwInit, GlfwCreateWindow 640 480 ''Hello World'', GlfwMakeContextCurrent 7, GlewInit,
      Cout ''Error!'', Endl, GlGetString GL_VERSION, Cout ''3.3.0'']"
proof -
  have i: "fst (glfwInit env_no_glew []) \<noteq> 0"
    by (simp add: glfwInit_def env_no_glew_simps)
  have w: "fst (glfwCreateWindow env_no_glew 640 480 ''Hello World'' [GlfwInit]) = 7"
    by (simp add: glfwCreateWindow_def env_no_glew_simps)
  have n: "(7::nat) \<noteq> NULL" by (simp add: NULL_def)
  have g: "fst (glewInit env_no_glew
          (glfwMakeContextCurrent 7 [GlfwInit, GlfwCreateWindow 640 480 ''Hello World''])) \<noteq>
     GLEW_OK"
    by (simp add: glewInit_def env_no_glew_simps GLEW_OK_def)
  from main_glew_failure [OF i w n refl g]
  have "\<forall>tr. main env_no_glew \<noteq> Some (- 1, tr)" by blast
  moreover have "take 8 run_no_glew =
     [GlfwInit, GlfwCreateWindow 640 480 ''Hello World'', GlfwMakeContextCurrent 7, GlewInit,
      Cout ''Error!'', Endl, GlGetString GL_VERSION, Cout ''3.3.0'']"
    by (simp add: run_no_glew_def setup_ok_def)
  ultimately show ?thesis using i w n g main_env_no_glew by simp
qed




end
